theory Spec2Isabelle
  imports Main "HOL-Library.Sublist" "HOL-Library.Monad_Syntax"
begin

section \<open>Values that can be thrown\<close>

text \<open>
  A TypeScript \<^verbatim>\<open>catch (error)\<close> receives any value. The code tells two kinds apart with
  \<^verbatim>\<open>error instanceof Error\<close>: an \<^verbatim>\<open>Error\<close> object, which carries a message, and everything
  else. \<open>Undefined\<close> is the value of a variable that was declared and never assigned.
\<close>

datatype thrown = Error string | Undefined | Other string

text \<open>\<^verbatim>\<open>error instanceof Error ? error.message : 'Unknown error'\<close>\<close>

fun errorMessage :: "thrown \<Rightarrow> string" where
  "errorMessage (Error m) = m"
| "errorMessage _ = ''Unknown error''"

text \<open>\<^verbatim>\<open>error instanceof Error ? error : new Error('Unknown error')\<close>\<close>

fun asError :: "thrown \<Rightarrow> thrown" where
  "asError (Error m) = Error m"
| "asError _ = Error ''Unknown error''"

section \<open>BaseAdapter.retry\<close>

text \<open>
  \<^verbatim>\<open>retry(operation, maxAttempts, delay)\<close> of \<^verbatim>\<open>BaseAdapter\<close>. The operation is a thunk
  whose outcome may change from call to call: \<open>operation i\<close> is the outcome of its
  invocation number \<open>i\<close>, counted from 0, \<open>Inl\<close> for a rejected promise and \<open>Inr\<close> for a
  value. The numbers \<^verbatim>\<open>maxAttempts\<close> and \<^verbatim>\<open>delay\<close> are integers and are always given (their
  defaults, \<^verbatim>\<open>config.retryAttempts\<close> and 1000, are values like any other). A run records what
  the caller can observe: the outcome, how often the operation was invoked, and the sum
  of the delays handed to \<^verbatim>\<open>setTimeout\<close>.
\<close>

record 'a retry_run =
  outcome :: "thrown + 'a"
  invocations :: nat
  waited :: int

text \<open>
  The \<^verbatim>\<open>for (let attempt = 1; attempt <= maxAttempts; attempt++)\<close> loop, with the local
  variables \<^verbatim>\<open>attempt\<close>, \<^verbatim>\<open>delay\<close> and \<^verbatim>\<open>lastError\<close> as arguments. The last branch is
  the \<^verbatim>\<open>throw lastError!\<close> after the loop.
\<close>

function retry_loop ::
  "(nat \<Rightarrow> thrown + 'a) \<Rightarrow> int \<Rightarrow> int \<Rightarrow> int \<Rightarrow> thrown \<Rightarrow> nat \<Rightarrow> int \<Rightarrow> 'a retry_run" where
  "retry_loop operation maxAttempts attempt delay lastError calls slept =
     (if attempt \<le> maxAttempts then
        (case operation calls of
           Inr v \<Rightarrow> \<lparr>outcome = Inr v, invocations = Suc calls, waited = slept\<rparr>
         | Inl error \<Rightarrow>
             (if attempt = maxAttempts
              then \<lparr>outcome = Inl (asError error), invocations = Suc calls, waited = slept\<rparr>
              else retry_loop operation maxAttempts (attempt + 1) (delay * 2)
                     (asError error) (Suc calls) (slept + delay)))
      else \<lparr>outcome = Inl lastError, invocations = calls, waited = slept\<rparr>)"
  by pat_completeness auto
termination
  by (relation "measure (\<lambda>(operation, maxAttempts, attempt, delay, lastError, calls, slept).
                  nat (maxAttempts + 1 - attempt))") auto

declare retry_loop.simps [simp del]

definition retry :: "(nat \<Rightarrow> thrown + 'a) \<Rightarrow> int \<Rightarrow> int \<Rightarrow> 'a retry_run" where
  "retry operation maxAttempts delay = retry_loop operation maxAttempts 1 delay Undefined 0 0"

text \<open>The operation fails on its first \<open>k\<close> invocations and returns \<open>v\<close> on the next one.\<close>

definition fails_then_succeeds :: "(nat \<Rightarrow> thrown + 'a) \<Rightarrow> nat \<Rightarrow> 'a \<Rightarrow> bool" where
  "fails_then_succeeds operation k v \<longleftrightarrow> (\<forall>i<k. isl (operation i)) \<and> operation k = Inr v"

text \<open>The operation fails on each of its first \<open>n\<close> invocations.\<close>

definition fails_first :: "(nat \<Rightarrow> thrown + 'a) \<Rightarrow> nat \<Rightarrow> bool" where
  "fails_first operation n \<longleftrightarrow> (\<forall>i<n. isl (operation i))"

text \<open>
  Operations for the examples: one that times out twice and then returns 7, one that times
  out on every call, and one that rejects with a value that is not an \<^verbatim>\<open>Error\<close> object on
  every call.
\<close>

definition flaky_operation :: "nat \<Rightarrow> thrown + nat" where
  "flaky_operation i = (if i < 2 then Inl (Error ''timeout'') else Inr 7)"

definition failing_operation :: "nat \<Rightarrow> thrown + nat" where
  "failing_operation i = Inl (Error ''timeout'')"

definition offline_operation :: "nat \<Rightarrow> thrown + nat" where
  "offline_operation i = Inl (Other ''offline'')"

section \<open>Data model (types.ts)\<close>

text \<open>
  Text is a \<open>string\<close>: a list of 8-bit characters, read as the UTF-16 code units below
  256. Lengths and positions count characters, as \<^verbatim>\<open>String.length\<close> counts code units.
  Numbers are integers. An optional property is an \<open>option\<close>.

  Several interfaces use the same property names. The record declared last owns the plain
  name; the others are written with the record's name in front (\<open>CsvJobRecord.title\<close>,
  \<open>SearchFilters.jobType\<close>, \<open>JobData.platform\<close>).
\<close>

record CsvJobRecord =
  title :: string
  description :: string
  budget :: string
  hourlyRate :: string
  skills :: string
  postedTime :: string
  clientInfo :: string
  jobUrl :: string
  jobType :: string
  duration :: string
  experienceLevel :: string
  platform :: string

datatype job_type_filter = Fixed | HourlyJobs | AllJobs

datatype experience_filter = Entry | Intermediate | Expert | AllLevels

datatype sort_order = Relevance | Newest | Budget | Proposals

record SearchFilters =
  keyword :: "string option"
  category :: "string option"
  tags :: "string list option"
  minBudget :: "int option"
  maxBudget :: "int option"
  jobType :: "job_type_filter option"
  experienceLevel :: "experience_filter option"
  location :: "string option"
  sortBy :: "sort_order option"

record JobData =
  title :: string
  description :: string
  budget :: string
  hourlyRate :: string
  skills :: "string list"
  postedTime :: string
  clientInfo :: string
  jobUrl :: string
  jobType :: string
  duration :: string
  experienceLevel :: string
  platform :: string

text \<open>The \<^verbatim>\<open>timestamp\<close> of a result is a clock reading, a number.\<close>

record ScrapingResult =
  jobs :: "JobData list"
  totalFound :: nat
  platform :: string
  searchQuery :: string
  timestamp :: nat
  success :: bool
  errors :: "string list option"

record AdapterConfig =
  timeout :: int
  maxJobs :: int
  delayBetweenRequests :: int
  retryAttempts :: int
  headless :: bool

section \<open>Strings\<close>

abbreviation dquote :: char where "dquote \<equiv> CHR 0x22"
abbreviation newline :: char where "newline \<equiv> CHR 0x0A"
abbreviation comma :: char where "comma \<equiv> CHR '',''"

text \<open>\<^verbatim>\<open>parts.join(sep)\<close>\<close>

fun join :: "'a list \<Rightarrow> 'a list list \<Rightarrow> 'a list" where
  "join sep [] = []"
| "join sep [x] = x"
| "join sep (x # y # ys) = x @ sep @ join sep (y # ys)"

text \<open>\<^verbatim>\<open>s.replace(/a/g, b)\<close> for a pattern \<open>a\<close> of one character.\<close>

definition replace_char :: "char \<Rightarrow> string \<Rightarrow> string \<Rightarrow> string" where
  "replace_char a b s = concat (map (\<lambda>c. if c = a then b else [c]) s)"

text \<open>\<^verbatim>\<open>s.includes(part)\<close>\<close>

definition includes_str :: "string \<Rightarrow> string \<Rightarrow> bool" where
  "includes_str s part = sublist part s"

section \<open>CSV output (utils.ts)\<close>

definition jobDataToCsvRecord :: "JobData \<Rightarrow> CsvJobRecord" where
  "jobDataToCsvRecord job =
     \<lparr>CsvJobRecord.title = JobData.title job,
      CsvJobRecord.description =
        replace_char comma '';'' (replace_char newline '' '' (JobData.description job)),
      CsvJobRecord.budget = JobData.budget job,
      CsvJobRecord.hourlyRate = JobData.hourlyRate job,
      CsvJobRecord.skills = join ''; '' (JobData.skills job),
      CsvJobRecord.postedTime = JobData.postedTime job,
      CsvJobRecord.clientInfo = JobData.clientInfo job,
      CsvJobRecord.jobUrl = JobData.jobUrl job,
      CsvJobRecord.jobType = JobData.jobType job,
      CsvJobRecord.duration = JobData.duration job,
      CsvJobRecord.experienceLevel = JobData.experienceLevel job,
      CsvJobRecord.platform = JobData.platform job\<rparr>"

definition headers :: "string list" where
  "headers = [''title'', ''description'', ''budget'', ''hourlyRate'', ''skills'', ''postedTime'',
     ''clientInfo'', ''jobUrl'', ''jobType'', ''duration'', ''experienceLevel'', ''platform'']"

text \<open>\<^verbatim>\<open>record[header as keyof CsvJobRecord]\<close>\<close>

definition record_field :: "CsvJobRecord \<Rightarrow> string \<Rightarrow> string" where
  "record_field r header =
     (if header = ''title'' then CsvJobRecord.title r
      else if header = ''description'' then CsvJobRecord.description r
      else if header = ''budget'' then CsvJobRecord.budget r
      else if header = ''hourlyRate'' then CsvJobRecord.hourlyRate r
      else if header = ''skills'' then CsvJobRecord.skills r
      else if header = ''postedTime'' then CsvJobRecord.postedTime r
      else if header = ''clientInfo'' then CsvJobRecord.clientInfo r
      else if header = ''jobUrl'' then CsvJobRecord.jobUrl r
      else if header = ''jobType'' then CsvJobRecord.jobType r
      else if header = ''duration'' then CsvJobRecord.duration r
      else if header = ''experienceLevel'' then CsvJobRecord.experienceLevel r
      else if header = ''platform'' then CsvJobRecord.platform r
      else [])"

text \<open>
  One cell of a row, the body of \<^verbatim>\<open>headers.map\<close> in \<^verbatim>\<open>createCsvContent\<close>:
  \<^verbatim>\<open>String(value || "")\<close>, quoted with its double quotes doubled when it holds a comma, a
  double quote or a newline.
\<close>

definition csv_cell :: "string \<Rightarrow> string" where
  "csv_cell v =
     (let stringValue = (if v = [] then [] else v) in
      if comma \<in> set stringValue \<or> dquote \<in> set stringValue \<or> newline \<in> set stringValue
      then [dquote] @ replace_char dquote [dquote, dquote] stringValue @ [dquote]
      else stringValue)"

definition createCsvContent :: "JobData list \<Rightarrow> string" where
  "createCsvContent listings =
     join [newline]
       (join [comma] headers #
        map (\<lambda>job. join [comma]
               (map (\<lambda>header. csv_cell (record_field (jobDataToCsvRecord job) header)) headers))
          listings)"

subsection \<open>Reading CSV back\<close>

text \<open>
  The repository writes CSV and never reads it. To state what comes back from a file, the
  reader below undoes the writer's quoting rule: a cell that starts with a double quote
  runs to the next double quote that is not doubled, and a doubled double quote inside it
  stands for one; any other cell runs to the next comma or newline; a comma ends a cell and
  a newline ends a row. The reader is a machine over the characters, with the cell and the
  row under construction held in reverse.
\<close>

datatype csv_mode = Start | Plain | Quoted | QuoteSeen

fun parse_csv ::
  "csv_mode \<Rightarrow> string \<Rightarrow> string list \<Rightarrow> string list list \<Rightarrow> string \<Rightarrow> string list list" where
  "parse_csv m cur row rows [] = rev (rev (rev cur # row) # rows)"
| "parse_csv Quoted cur row rows (c # cs) =
     (if c = dquote then parse_csv QuoteSeen cur row rows cs
      else parse_csv Quoted (c # cur) row rows cs)"
| "parse_csv m cur row rows (c # cs) =
     (if c = comma then parse_csv Start [] (rev cur # row) rows cs
      else if c = newline then parse_csv Start [] [] (rev (rev cur # row) # rows) cs
      else if c = dquote \<and> m = Start then parse_csv Quoted cur row rows cs
      else if c = dquote \<and> m = QuoteSeen then parse_csv Quoted (c # cur) row rows cs
      else parse_csv Plain (c # cur) row rows cs)"

definition parseCsv :: "string \<Rightarrow> string list list" where
  "parseCsv s = parse_csv Start [] [] [] s"

text \<open>
  The description that comes back from the CSV file of one listing: the cell under the
  \<open>description\<close> header in the row after the header row.
\<close>

definition description_read_back :: "JobData \<Rightarrow> string option" where
  "description_read_back job =
     (case parseCsv (createCsvContent [job]) of
        [header_row, row] \<Rightarrow> map_of (zip header_row row) ''description''
      | _ \<Rightarrow> None)"

text \<open>The text of a table: one line per row, each cell written as the writer writes it.\<close>

definition csv_text :: "string list list \<Rightarrow> string" where
  "csv_text table = join [newline] (map (\<lambda>vs. join [comma] (map csv_cell vs)) table)"

definition csv_values :: "CsvJobRecord \<Rightarrow> string list" where
  "csv_values r = map (record_field r) headers"

text \<open>A listing whose description holds a comma, double quotes and a newline.\<close>

definition quoted_job :: JobData where
  "quoted_job =
     \<lparr>JobData.title = ''Logo'', JobData.description = ''Say '' @ [dquote] @ ''hi'' @ [dquote, comma, newline] @ ''twice'',
      JobData.budget = ''$50'', JobData.hourlyRate = [], JobData.skills = [''Figma'', ''Sketch''],
      JobData.postedTime = ''today'', JobData.clientInfo = ''Verified'', JobData.jobUrl = [],
      JobData.jobType = ''Fixed Price'', JobData.duration = ''Not specified'',
      JobData.experienceLevel = ''Not specified'', JobData.platform = ''freelancer''\<rparr>"

section \<open>Text helpers and regular expressions\<close>

text \<open>
  The white space of \<^verbatim>\<open>\s\<close> and of \<^verbatim>\<open>trim\<close> among the 8-bit characters: tab, line feed,
  vertical tab, form feed, carriage return, space and the no-break space.
\<close>

definition is_space :: "char \<Rightarrow> bool" where
  "is_space c \<longleftrightarrow> c \<in> set [CHR 0x09, CHR 0x0A, CHR 0x0B, CHR 0x0C, CHR 0x0D, CHR '' '', CHR 0xA0]"

definition is_digit :: "char \<Rightarrow> bool" where
  "is_digit c \<longleftrightarrow> c \<in> set ''0123456789''"

definition is_upper :: "char \<Rightarrow> bool" where
  "is_upper c \<longleftrightarrow> c \<in> set ''ABCDEFGHIJKLMNOPQRSTUVWXYZ''"

definition is_lower :: "char \<Rightarrow> bool" where
  "is_lower c \<longleftrightarrow> c \<in> set ''abcdefghijklmnopqrstuvwxyz''"

text \<open>The word characters of \<^verbatim>\<open>\b\<close>: letters, digits and the underscore.\<close>

definition is_word :: "char \<Rightarrow> bool" where
  "is_word c \<longleftrightarrow> is_upper c \<or> is_lower c \<or> is_digit c \<or> c = CHR ''_''"

text \<open>
  \<^verbatim>\<open>toLowerCase\<close> on one character: the letters A to Z, and the capital letters between
  U+00C0 and U+00DE (U+00D7, the multiplication sign, is not one), move up by 32.
\<close>

definition to_lower :: "char \<Rightarrow> char" where
  "to_lower c =
     (if is_upper c \<or> (0xC0 \<le> (of_char c :: nat) \<and> (of_char c :: nat) \<le> 0xDE \<and> c \<noteq> CHR 0xD7)
      then char_of (of_char c + (32 :: nat)) else c)"

definition toLowerCase :: "string \<Rightarrow> string" where
  "toLowerCase s = map to_lower s"

text \<open>\<^verbatim>\<open>s.trim()\<close>\<close>

definition trim :: "string \<Rightarrow> string" where
  "trim s = rev (dropWhile is_space (rev (dropWhile is_space s)))"

text \<open>\<^verbatim>\<open>s.split("\n")\<close>: the pieces between the separators, one more than there are separators.\<close>

fun split_on :: "char \<Rightarrow> string \<Rightarrow> string list" where
  "split_on sep [] = [[]]"
| "split_on sep (c # cs) =
     (if c = sep then [] # split_on sep cs
      else (case split_on sep cs of [] \<Rightarrow> [[c]] | piece # pieces \<Rightarrow> (c # piece) # pieces))"

text \<open>\<^verbatim>\<open>s.startsWith(p)\<close> is \<open>prefix p s\<close>; \<^verbatim>\<open>s.substring(0, n)\<close> is \<open>take n s\<close>.\<close>

subsection \<open>Regular expressions\<close>

text \<open>
  The patterns of the adapter use characters and character classes, sequence, ordered
  alternatives, the greedy quantifiers and the word boundary \<^verbatim>\<open>\b\<close>; their groups are
  never referred to. A position in the input is the character before it, if any, and the
  rest of the input.

  \<open>ends r p\<close> lists the positions where a match of \<open>r\<close> that starts at \<open>p\<close> can end, in the
  order in which the backtracking matcher of the language tries them: the first
  alternative before the second, one more round of a greedy star before stopping. A round
  of a star that consumes nothing is not taken. The match that the language reports at \<open>p\<close>
  is the head of the list.
\<close>

datatype regex =
    Chr "char \<Rightarrow> bool"
  | Eps
  | Seq regex regex
  | Alt regex regex
  | Star regex
  | Boundary

type_synonym pos = "char option \<times> string"

primrec star_from :: "(pos \<Rightarrow> pos list) \<Rightarrow> nat \<Rightarrow> pos \<Rightarrow> pos list" where
  "star_from step 0 p = [p]"
| "star_from step (Suc n) p =
     concat (map (star_from step n) (filter (\<lambda>q. length (snd q) < length (snd p)) (step p))) @ [p]"

definition word_before :: "pos \<Rightarrow> bool" where
  "word_before p = (case fst p of None \<Rightarrow> False | Some c \<Rightarrow> is_word c)"

definition word_after :: "pos \<Rightarrow> bool" where
  "word_after p = (case snd p of [] \<Rightarrow> False | c # cs \<Rightarrow> is_word c)"

primrec ends :: "regex \<Rightarrow> pos \<Rightarrow> pos list" where
  "ends (Chr P) p = (case snd p of [] \<Rightarrow> [] | c # cs \<Rightarrow> if P c then [(Some c, cs)] else [])"
| "ends Eps p = [p]"
| "ends (Seq r1 r2) p = concat (map (ends r2) (ends r1 p))"
| "ends (Alt r1 r2) p = ends r1 p @ ends r2 p"
| "ends (Star r) p = star_from (ends r) (length (snd p)) p"
| "ends Boundary p = (if word_before p \<noteq> word_after p then [p] else [])"

text \<open>
  \<^verbatim>\<open>text.match(pattern)\<close> for a pattern with the \<^verbatim>\<open>g\<close> flag: the matched pieces from left
  to right, each search starting where the last match ended, one character further after an
  empty match. The empty list stands for \<^verbatim>\<open>null\<close>.
\<close>

fun scan :: "regex \<Rightarrow> char option \<Rightarrow> string \<Rightarrow> string list" where
  "scan r prev s =
     (case ends r (prev, s) of
        [] \<Rightarrow> (case s of [] \<Rightarrow> [] | c # cs \<Rightarrow> scan r (Some c) cs)
      | q # qs \<Rightarrow>
          (if length (snd q) < length s
           then take (length s - length (snd q)) s # scan r (fst q) (snd q)
           else [] # (case s of [] \<Rightarrow> [] | c # cs \<Rightarrow> scan r (Some c) cs)))"

definition match_all :: "string \<Rightarrow> regex \<Rightarrow> string list" where
  "match_all s r = scan r None s"

text \<open>\<^verbatim>\<open>text.replace(pattern, by)\<close> for a pattern with the \<^verbatim>\<open>g\<close> flag.\<close>

fun replace_scan :: "regex \<Rightarrow> string \<Rightarrow> char option \<Rightarrow> string \<Rightarrow> string" where
  "replace_scan r by prev s =
     (case ends r (prev, s) of
        [] \<Rightarrow> (case s of [] \<Rightarrow> [] | c # cs \<Rightarrow> c # replace_scan r by (Some c) cs)
      | q # qs \<Rightarrow>
          (if length (snd q) < length s
           then by @ replace_scan r by (fst q) (snd q)
           else by @ (case s of [] \<Rightarrow> [] | c # cs \<Rightarrow> c # replace_scan r by (Some c) cs)))"

definition replace_all :: "string \<Rightarrow> regex \<Rightarrow> string \<Rightarrow> string" where
  "replace_all s r by = replace_scan r by None s"

text \<open>Pattern syntax: \<^verbatim>\<open>r+\<close>, \<^verbatim>\<open>r?\<close>, \<^verbatim>\<open>(?:a|b|c)\<close>, and the pieces of a pattern in a row.\<close>

definition Plus :: "regex \<Rightarrow> regex" where
  "Plus r = Seq r (Star r)"

definition Opt :: "regex \<Rightarrow> regex" where
  "Opt r = Alt r Eps"

fun alts :: "regex list \<Rightarrow> regex" where
  "alts [] = Chr (\<lambda>c. False)"
| "alts [r] = r"
| "alts (r # rs) = Alt r (alts rs)"

fun seqs :: "regex list \<Rightarrow> regex" where
  "seqs [] = Eps"
| "seqs [r] = r"
| "seqs (r # rs) = Seq r (seqs rs)"

text \<open>
  A pattern character under the \<^verbatim>\<open>i\<close> flag. The patterns spell ASCII only, and an ASCII
  character matches itself and its other case.
\<close>

definition ci :: "char \<Rightarrow> regex" where
  "ci x = Chr (\<lambda>c. to_lower c = to_lower x)"

definition lit :: "string \<Rightarrow> regex" where
  "lit s = seqs (map ci s)"

definition digit :: regex where
  "digit = Chr is_digit"

definition space :: regex where
  "space = Chr is_space"

text \<open>\<^verbatim>\<open>[\d,]\<close> and \<^verbatim>\<open>[:\s]\<close>\<close>

definition digit_or_comma :: regex where
  "digit_or_comma = Chr (\<lambda>c. is_digit c \<or> c = comma)"

definition colon_or_space :: regex where
  "colon_or_space = Chr (\<lambda>c. c = CHR '':'' \<or> is_space c)"

text \<open>
  The rupee sign U+20B9 is not an 8-bit character: no character of a text of the model is
  one, and a text of the model never includes it.
\<close>

definition rupee :: regex where
  "rupee = Chr (\<lambda>c. False)"

definition includes_rupee :: "string \<Rightarrow> bool" where
  "includes_rupee s = False"

text \<open>\<^verbatim>\<open>cleanText\<close> of utils.ts\<close>

definition cleanText :: "string \<Rightarrow> string" where
  "cleanText s = trim (replace_char newline '' '' (replace_all s (Plus space) '' ''))"

section \<open>The rendering collaborator\<close>

text \<open>
  What the adapter sees of the browser. An element handle answers \<^verbatim>\<open>textContent()\<close>,
  \<^verbatim>\<open>$(selector)\<close> and \<^verbatim>\<open>getAttribute(name)\<close>; each call may reject (\<open>Inl\<close>) or give its
  value, \<open>None\<close> for \<^verbatim>\<open>null\<close>. A document answers \<^verbatim>\<open>waitForSelector\<close> (\<open>None\<close>: the selector
  appeared in time), \<^verbatim>\<open>$$(selector)\<close> and \<^verbatim>\<open>screenshot\<close>. A browser is launched and set up
  (\<^verbatim>\<open>chromium.launch\<close> and \<^verbatim>\<open>newPage\<close>, then the headers and the viewport) and loads the
  document of a URL with \<^verbatim>\<open>goto\<close>; \<open>None\<close> means that the step went through.
\<close>

datatype element = Element
  (textContent: "thrown + string option")
  (query: "string \<Rightarrow> thrown + element option")
  (getAttribute: "string \<Rightarrow> thrown + string option")

record document =
  waitForSelector :: "string \<Rightarrow> thrown option"
  queryAll :: "string \<Rightarrow> thrown + element list"
  screenshot :: "thrown option"

record browser =
  launch :: "thrown option"
  configure :: "thrown option"
  goto :: "string \<Rightarrow> thrown + document"

text \<open>The page before anything is loaded, and a page that has been closed.\<close>

definition blank_document :: document where
  "blank_document =
     \<lparr>waitForSelector = (\<lambda>selector. Some (Error ''Timeout'')),
      queryAll = (\<lambda>selector. Inr []),
      screenshot = None\<rparr>"

definition closed_document :: document where
  "closed_document =
     \<lparr>waitForSelector = (\<lambda>selector. Some (Error ''Target closed'')),
      queryAll = (\<lambda>selector. Inl (Error ''Target closed'')),
      screenshot = Some (Error ''Target closed'')\<rparr>"

section \<open>FreelancerAdapter\<close>

definition baseUrl :: string where
  "baseUrl = ''https://www.freelancer.in''"

definition supportedCategories :: "string list" where
  "supportedCategories =
     [''websites'', ''mobile-apps'', ''software-development'', ''data-entry'', ''writing'',
      ''translation'', ''design'', ''marketing'', ''engineering-architecture'', ''legal'',
      ''admin-support'', ''customer-service'', ''sales'', ''accounting'']"

subsection \<open>buildSearchUrl\<close>

text \<open>A string property is truthy when it is present and not empty, a number when it is not 0.\<close>

definition truthy :: "string option \<Rightarrow> bool" where
  "truthy s = (case s of None \<Rightarrow> False | Some v \<Rightarrow> v \<noteq> [])"

definition truthy_number :: "int option \<Rightarrow> bool" where
  "truthy_number n = (case n of None \<Rightarrow> False | Some v \<Rightarrow> v \<noteq> 0)"

text \<open>
  \<^verbatim>\<open>n.toString()\<close> for an integer: the decimal numeral. This is what the language writes
  for the integers that a number holds exactly, up to \<open>10^21\<close>; from there on it writes an
  exponent, and a budget with a fraction is not an integer. Nothing below depends on the
  digits of a budget.
\<close>

fun show_nat :: "nat \<Rightarrow> string" where
  "show_nat n =
     (if n < 10 then [char_of (48 + n)] else show_nat (n div 10) @ [char_of (48 + n mod 10)])"

definition show_int :: "int \<Rightarrow> string" where
  "show_int i = (if i < 0 then ''-'' @ show_nat (nat (- i)) else show_nat (nat i))"

text \<open>
  \<^verbatim>\<open>URLSearchParams.toString()\<close>: the pairs as \<^verbatim>\<open>name=value\<close> joined by \<^verbatim>\<open>&\<close>, in the order of
  the \<^verbatim>\<open>append\<close> calls. Letters, digits and \<^verbatim>\<open>*-._\<close> stand for themselves, a space becomes
  \<^verbatim>\<open>+\<close>, and every other character becomes the bytes of its UTF-8 encoding, each written
  \<^verbatim>\<open>%XX\<close>.
\<close>

definition hex_digit :: "nat \<Rightarrow> char" where
  "hex_digit n = (''0123456789ABCDEF'') ! (n mod 16)"

definition percent_byte :: "nat \<Rightarrow> string" where
  "percent_byte b = [CHR ''%'', hex_digit (b div 16), hex_digit b]"

definition urlencode_char :: "char \<Rightarrow> string" where
  "urlencode_char c =
     (if is_upper c \<or> is_lower c \<or> is_digit c \<or> c \<in> set ''*-._'' then [c]
      else if c = CHR '' '' then ''+''
      else if (of_char c :: nat) < 128 then percent_byte (of_char c)
      else percent_byte (192 + of_char c div 64) @ percent_byte (128 + of_char c mod 64))"

definition urlencode :: "string \<Rightarrow> string" where
  "urlencode s = concat (map urlencode_char s)"

definition params_toString :: "(string \<times> string) list \<Rightarrow> string" where
  "params_toString params = join ''&'' (map (\<lambda>(name, v). urlencode name @ ''='' @ urlencode v) params)"

text \<open>The local variable \<^verbatim>\<open>url\<close> of \<^verbatim>\<open>buildSearchUrl\<close> when the query string is added.\<close>

definition search_path :: "SearchFilters \<Rightarrow> string" where
  "search_path filters =
     baseUrl @ ''/jobs'' @
     (case category filters of
        None \<Rightarrow> []
      | Some c \<Rightarrow> if c \<noteq> [] \<and> c \<in> set supportedCategories then ''/'' @ c else [])"

text \<open>
  The local variable \<^verbatim>\<open>params\<close> of \<^verbatim>\<open>buildSearchUrl\<close> after the last \<^verbatim>\<open>append\<close>: what the
  commented blocks of the method append, in their order.
\<close>

definition keyword_params :: "SearchFilters \<Rightarrow> (string \<times> string) list" where
  "keyword_params filters =
     (case keyword filters of
        None \<Rightarrow> []
      | Some k \<Rightarrow> if k \<noteq> [] then [(''keyword'', k)] else [])"

definition tags_params :: "SearchFilters \<Rightarrow> (string \<times> string) list" where
  "tags_params filters =
     (if \<not> truthy (keyword filters) then
        (case tags filters of
           None \<Rightarrow> []
         | Some ts \<Rightarrow> if 0 < length ts then [(''keyword'', join '' '' ts)] else [])
      else [])"

definition type_params :: "SearchFilters \<Rightarrow> (string \<times> string) list" where
  "type_params filters =
     (case SearchFilters.jobType filters of
        Some Fixed \<Rightarrow> [(''type'', ''fixed'')]
      | Some HourlyJobs \<Rightarrow> [(''type'', ''hourly'')]
      | _ \<Rightarrow> [])"

definition budget_params :: "SearchFilters \<Rightarrow> (string \<times> string) list" where
  "budget_params filters =
     (if truthy_number (minBudget filters) then [(''min_price'', show_int (the (minBudget filters)))]
      else []) @
     (if truthy_number (maxBudget filters) then [(''max_price'', show_int (the (maxBudget filters)))]
      else [])"

definition sort_params :: "SearchFilters \<Rightarrow> (string \<times> string) list" where
  "sort_params filters =
     (case sortBy filters of
        Some Newest \<Rightarrow> [(''sort'', ''time'')]
      | Some Budget \<Rightarrow> [(''sort'', ''price'')]
      | _ \<Rightarrow> [])"

definition search_params :: "SearchFilters \<Rightarrow> (string \<times> string) list" where
  "search_params filters =
     keyword_params filters @ tags_params filters @ type_params filters @
     budget_params filters @ sort_params filters"

definition buildSearchUrl :: "SearchFilters \<Rightarrow> string" where
  "buildSearchUrl filters =
     (let url = search_path filters; queryString = params_toString (search_params filters)
      in if queryString \<noteq> [] then url @ ''?'' @ queryString else url)"

text \<open>Filters with a keyword, tags and a category that the platform does not have.\<close>

definition sample_filters :: SearchFilters where
  "sample_filters =
     \<lparr>keyword = Some ''logo design'', category = Some ''gardening'', tags = Some [''figma'', ''svg''],
      minBudget = Some 50, maxBudget = None, jobType = Some Fixed, experienceLevel = None,
      location = None, sortBy = Some Relevance\<rparr>"

text \<open>The same filters without the keyword, with a supported category, newest first.\<close>

definition tagged_filters :: SearchFilters where
  "tagged_filters = sample_filters\<lparr>keyword := None, category := Some ''design'', sortBy := Some Newest\<rparr>"

definition getSupportedCategories :: "string list" where
  "getSupportedCategories = supportedCategories"

subsection \<open>extractSkillsFromText\<close>

text \<open>\<^verbatim>\<open>/\b(a|b|c)\b/gi\<close>\<close>

definition whole_words :: "regex list \<Rightarrow> regex" where
  "whole_words rs = seqs [Boundary, alts rs, Boundary]"

definition skillPatterns :: "regex list" where
  "skillPatterns =
     [whole_words [lit ''JavaScript'', lit ''TypeScript'', lit ''Python'', lit ''Java'', lit ''C++'',
        lit ''C#'', lit ''PHP'', lit ''Ruby'', lit ''Go'', lit ''Rust'', lit ''Swift'', lit ''Kotlin'',
        lit ''Scala''],
      whole_words [lit ''React'', lit ''Vue'', lit ''Angular'',
        seqs [lit ''Node'', Opt (lit ''.''), lit ''js''], lit ''Express'', lit ''Django'',
        lit ''Flask'', lit ''Laravel'', lit ''Spring'', lit ''ASP.NET''],
      whole_words [lit ''MySQL'', lit ''PostgreSQL'', lit ''MongoDB'', lit ''Redis'', lit ''SQLite'',
        lit ''Oracle'', lit ''SQL Server''],
      whole_words [lit ''AWS'', lit ''Azure'', lit ''Google Cloud'', lit ''Docker'', lit ''Kubernetes'',
        lit ''Jenkins'', lit ''CI/CD''],
      whole_words [lit ''Photoshop'', lit ''Illustrator'', lit ''Figma'', lit ''Sketch'',
        lit ''After Effects'', lit ''Premiere'', lit ''Content Writing'', lit ''Copywriting''],
      whole_words [lit ''SEO'', lit ''SEM'', lit ''Social Media'', lit ''Digital Marketing'',
        lit ''Data Entry'', lit ''Virtual Assistant'', lit ''Excel'', lit ''Word''],
      whole_words [lit ''iOS'', lit ''Android'', lit ''React Native'', lit ''Flutter'', lit ''Xamarin'',
        lit ''Ionic'']]"

text \<open>
  \<^verbatim>\<open>Array.from(new Set(xs))\<close>: a set keeps each value once, in the order in which the values
  were first added.
\<close>

definition set_add :: "'a list \<Rightarrow> 'a \<Rightarrow> 'a list" where
  "set_add seen x = (if x \<in> set seen then seen else seen @ [x])"

definition unique :: "'a list \<Rightarrow> 'a list" where
  "unique xs = foldl set_add [] xs"

text \<open>The body of the loop over the patterns: \<^verbatim>\<open>skills.push(...matches.map(trim))\<close>.\<close>

definition push_matches :: "string \<Rightarrow> string list \<Rightarrow> regex \<Rightarrow> string list" where
  "push_matches text found pattern =
     (case match_all text pattern of [] \<Rightarrow> found | m # ms \<Rightarrow> found @ map trim (m # ms))"

definition extractSkillsFromText :: "string \<Rightarrow> string list" where
  "extractSkillsFromText text = unique (foldl (push_matches text) [] skillPatterns)"

subsection \<open>extractJobFromElement\<close>

text \<open>
  The method is one \<^verbatim>\<open>try\<close> block whose \<^verbatim>\<open>catch\<close> logs the error and returns \<^verbatim>\<open>null\<close>: inside
  it a rejected call is \<open>None\<close> and ends the extraction of this element. Each commented
  step of the method is a definition of its own.
\<close>

text \<open>\<^verbatim>\<open>(await x.textContent()) || ""\<close>\<close>

definition or_empty :: "string option \<Rightarrow> string" where
  "or_empty s = (case s of None \<Rightarrow> [] | Some v \<Rightarrow> v)"

text \<open>\<^verbatim>\<open>value || fallback\<close> on strings\<close>

definition or_else :: "string \<Rightarrow> string \<Rightarrow> string" where
  "or_else v fallback = (if v = [] then fallback else v)"

definition titleSelectors :: "string list" where
  \<open>titleSelectors =
     [''h1'', ''h2'', ''h3'', ''h4'', ''.job-title'', ''.project-title'', ''.title'',
      ''[data-testid="job-title"]'', ''a[href*="/projects/"]'', ''a[href*="/job/"]'',
      ''.JobSearchCard-primary-heading'', ''.JobSearchCard-item-title'']\<close>

text \<open>
  The loop over \<^verbatim>\<open>titleSelectors\<close>; the third argument is the variable \<^verbatim>\<open>title\<close>, which every
  selector that finds an element overwrites.
\<close>

fun title_loop :: "element \<Rightarrow> string list \<Rightarrow> string \<Rightarrow> string option" where
  "title_loop el [] t = Some t"
| "title_loop el (selector # rest) t =
     (case query el selector of
        Inl e \<Rightarrow> None
      | Inr None \<Rightarrow> title_loop el rest t
      | Inr (Some titleEl) \<Rightarrow>
          (case textContent titleEl of
             Inl e \<Rightarrow> None
           | Inr content \<Rightarrow>
               (let t' = cleanText (or_empty content)
                in if t' \<noteq> [] \<and> t' \<noteq> ''Untitled Job'' then Some t' else title_loop el rest t')))"

definition title_fallback :: "string \<Rightarrow> string \<Rightarrow> string" where
  "title_fallback elementText t =
     (if t = ''Untitled Job'' then
        (case filter (\<lambda>line. 10 < length line \<and> length line < 100 \<and>
                        \<not> includes_rupee line \<and> \<not> includes_str line ''$'')
                (map cleanText (split_on newline elementText)) of
           [] \<Rightarrow> t
         | line # others \<Rightarrow> line)
      else t)"

definition extract_url :: "element \<Rightarrow> string option" where
  \<open>extract_url el =
     (case query el ''a[href*="/projects/"], a[href*="/job/"]'' of
        Inl e \<Rightarrow> None
      | Inr None \<Rightarrow> Some []
      | Inr (Some linkEl) \<Rightarrow>
          (case getAttribute linkEl ''href'' of
             Inl e \<Rightarrow> None
           | Inr None \<Rightarrow> Some []
           | Inr (Some href) \<Rightarrow>
               Some (if href = [] then []
                     else if prefix ''http'' href then href else baseUrl @ href)))\<close>

definition descSelectors :: "string list" where
  "descSelectors =
     [''.job-description'', ''.project-description'', ''.description'',
      ''.JobSearchCard-secondary-price'', ''p'']"

fun description_loop :: "element \<Rightarrow> string list \<Rightarrow> string option" where
  "description_loop el [] = Some ''No description available''"
| "description_loop el (selector # rest) =
     (case query el selector of
        Inl e \<Rightarrow> None
      | Inr None \<Rightarrow> description_loop el rest
      | Inr (Some descEl) \<Rightarrow>
          (case textContent descEl of
             Inl e \<Rightarrow> None
           | Inr content \<Rightarrow>
               (let text = cleanText (or_empty content)
                in if text \<noteq> [] \<and> 20 < length text then Some (take 500 text)
                   else description_loop el rest)))"

definition description_fallback :: "string \<Rightarrow> string \<Rightarrow> string" where
  "description_fallback elementText d =
     (if d = ''No description available'' then
        take 500 (join '' ''
          (take 2 (drop 1
            (filter (\<lambda>line. 30 < length line \<and> length line < 300)
               (map cleanText (split_on newline elementText))))))
      else d)"

text \<open>\<^verbatim>\<open>[\d,]+\<close>, and the optional second amount of a range behind a currency sign\<close>

definition amount :: regex where
  "amount = Plus digit_or_comma"

definition range_end :: "regex \<Rightarrow> regex" where
  "range_end currency = Opt (seqs [Star space, lit ''-'', Star space, currency, amount])"

definition budgetPatterns :: "regex list" where
  "budgetPatterns =
     [seqs [rupee, amount, range_end rupee, Star space, Opt (lit ''INR'')],
      seqs [lit ''$'', amount, range_end (lit ''$''), Star space, Opt (lit ''USD'')],
      seqs [lit ''Budget'', Star colon_or_space, rupee, amount],
      seqs [lit ''Budget'', Star colon_or_space, lit ''$'', amount]]"

definition hourlyPatterns :: "regex list" where
  "hourlyPatterns =
     [seqs [rupee, amount, range_end rupee, Star space, lit ''/'', Star space, lit ''hour''],
      seqs [lit ''$'', amount, range_end (lit ''$''), Star space, lit ''/'', Star space, lit ''hour''],
      seqs [amount, Star space, lit ''/'', Star space, lit ''hr''],
      seqs [lit ''Hourly'', Star colon_or_space, rupee, amount]]"

text \<open>
  \<^verbatim>\<open>for (const pattern of patterns) { const matches = text.match(pattern);
  if (matches) { found = matches[0]; break; } }\<close>
\<close>

fun first_match :: "string \<Rightarrow> regex list \<Rightarrow> string option" where
  "first_match text [] = None"
| "first_match text (pattern # rest) =
     (case match_all text pattern of [] \<Rightarrow> first_match text rest | m # ms \<Rightarrow> Some m)"

text \<open>The variables \<^verbatim>\<open>budget\<close>, \<^verbatim>\<open>hourlyRate\<close> and \<^verbatim>\<open>jobType\<close> after both loops.\<close>

definition extract_budget :: "string \<Rightarrow> string \<times> string \<times> string" where
  "extract_budget elementText =
     (let (b, type1) = (case first_match elementText budgetPatterns of
                          None \<Rightarrow> ([], ''Not specified'')
                        | Some m \<Rightarrow> (m, ''Fixed Price''))
      in case first_match elementText hourlyPatterns of
           None \<Rightarrow> (b, [], type1)
         | Some m \<Rightarrow> (b, m, ''Hourly''))"

definition timePatterns :: "regex list" where
  "timePatterns =
     [seqs [Plus digit, Star space, alts [lit ''hour'', lit ''hr'', lit ''hours'', lit ''hrs''],
        Star space, lit ''ago''],
      seqs [Plus digit, Star space, alts [lit ''day'', lit ''days''], Star space, lit ''ago''],
      seqs [Plus digit, Star space, alts [lit ''week'', lit ''weeks''], Star space, lit ''ago''],
      lit ''yesterday'',
      lit ''today'']"

definition extract_postedTime :: "string \<Rightarrow> string" where
  "extract_postedTime elementText =
     (case first_match elementText timePatterns of None \<Rightarrow> ''Recently posted'' | Some m \<Rightarrow> m)"

definition clientPatterns :: "regex list" where
  "clientPatterns =
     [seqs [Plus digit, Star space, alts [lit ''review'', lit ''reviews'']],
      seqs [Plus digit, Star space, alts [lit ''job'', lit ''jobs''], Star space, lit ''posted''],
      seqs [lit ''Payment'', Star space, lit ''verified''],
      lit ''Verified'',
      seqs [lit ''$'', Plus digit, Star digit_or_comma, Star space, lit ''spent'']]"

text \<open>
  The loop over \<^verbatim>\<open>clientPatterns\<close>: the first pattern with a match gives its first two
  matches, joined, and ends the loop.
\<close>

fun client_loop :: "string \<Rightarrow> regex list \<Rightarrow> string" where
  "client_loop text [] = ''Client information not available''"
| "client_loop text (pattern # rest) =
     (case match_all text pattern of
        [] \<Rightarrow> client_loop text rest
      | m # ms \<Rightarrow>
          (let joined = join '', '' (take 2 (m # ms))
           in if joined \<noteq> [] then joined else client_loop text rest))"

definition extract_experience :: "string \<Rightarrow> string" where
  "extract_experience elementText =
     (let lower = toLowerCase elementText in
      if includes_str lower ''entry level'' \<or> includes_str lower ''beginner'' then ''Entry Level''
      else if includes_str lower ''intermediate'' then ''Intermediate''
      else if includes_str lower ''expert'' \<or> includes_str lower ''advanced'' then ''Expert''
      else ''Not specified'')"

definition ok :: "thrown + 'a \<Rightarrow> 'a option" where
  "ok r = (case r of Inl e \<Rightarrow> None | Inr v \<Rightarrow> Some v)"

definition extractJobFromElement :: "element \<Rightarrow> JobData option" where
  "extractJobFromElement el = do {
     content \<leftarrow> ok (textContent el);
     let elementText = or_empty content;
     t \<leftarrow> title_loop el titleSelectors ''Untitled Job'';
     let t = title_fallback elementText t;
     url \<leftarrow> extract_url el;
     d \<leftarrow> description_loop el descSelectors;
     let d = description_fallback elementText d;
     let (b, rate, type) = extract_budget elementText;
     Some \<lparr>JobData.title = or_else t ''Untitled Job'',
           JobData.description = or_else d ''No description available'',
           JobData.budget = or_else b [],
           JobData.hourlyRate = or_else rate [],
           JobData.skills = extractSkillsFromText elementText,
           JobData.postedTime = or_else (extract_postedTime elementText) ''Recently posted'',
           JobData.clientInfo =
             or_else (client_loop elementText clientPatterns) ''Client information not available'',
           JobData.jobUrl = or_else url [],
           JobData.jobType = or_else type ''Not specified'',
           JobData.duration = ''Not specified'',
           JobData.experienceLevel = or_else (extract_experience elementText) ''Not specified'',
           JobData.platform = ''freelancer''\<rparr>
   }"

subsection \<open>extractJobs\<close>

text \<open>\<^verbatim>\<open>for (const element of elements) { const job = ...; if (job) jobs.push(job); }\<close>\<close>

definition extract_each :: "element list \<Rightarrow> JobData list" where
  "extract_each elements =
     concat (map (\<lambda>el. case extractJobFromElement el of None \<Rightarrow> [] | Some job \<Rightarrow> [job]) elements)"

text \<open>
  The loop of \<^verbatim>\<open>extractJobsWithModernSelectors\<close> and of \<^verbatim>\<open>extractJobsWithLegacySelectors\<close>:
  the first selector that finds elements is used, and a rejected \<^verbatim>\<open>$$\<close> leaves the method.
\<close>

fun first_selector :: "document \<Rightarrow> string list \<Rightarrow> thrown + JobData list" where
  "first_selector doc [] = Inr []"
| "first_selector doc (selector # rest) =
     (case queryAll doc selector of
        Inl e \<Rightarrow> Inl e
      | Inr elements \<Rightarrow>
          if 0 < length elements then Inr (extract_each elements) else first_selector doc rest)"

definition extractJobsWithModernSelectors :: "document \<Rightarrow> thrown + JobData list" where
  \<open>extractJobsWithModernSelectors doc =
     first_selector doc
       [''.JobSearchCard-item'', ''.JobCard'', ''[data-testid="job-card"]'', ''.project-item'']\<close>

definition extractJobsWithLegacySelectors :: "document \<Rightarrow> thrown + JobData list" where
  "extractJobsWithLegacySelectors doc =
     first_selector doc
       [''.job-item'', ''.project-card'', ''.freelancer-job'', ''[data-job-id]'', ''.job-listing'']"

fun generic_loop :: "element list \<Rightarrow> thrown + JobData list" where
  "generic_loop [] = Inr []"
| "generic_loop (el # rest) =
     (case textContent el of
        Inl e \<Rightarrow> Inl e
      | Inr content \<Rightarrow>
          (case generic_loop rest of
             Inl e \<Rightarrow> Inl e
           | Inr others \<Rightarrow>
               Inr ((case content of
                       None \<Rightarrow> []
                     | Some text \<Rightarrow>
                         if text \<noteq> [] \<and> 100 < length text \<and>
                            (includes_rupee text \<or> includes_str text ''$'' \<or> includes_str text ''hour'')
                         then extract_each [el] else []) @ others)))"

definition extractJobsGeneric :: "document \<Rightarrow> thrown + JobData list" where
  \<open>extractJobsGeneric doc =
     (case queryAll doc ''article, .card, [class*="job"], [class*="project"]'' of
        Inl e \<Rightarrow> Inl e
      | Inr allElements \<Rightarrow> generic_loop allElements)\<close>

text \<open>The listings that the three strategies of \<^verbatim>\<open>extractJobs\<close> find, before the cut.\<close>

definition discovered :: "document \<Rightarrow> thrown + JobData list" where
  "discovered doc =
     (case extractJobsWithModernSelectors doc of
        Inl e \<Rightarrow> Inl e
      | Inr modern \<Rightarrow>
          if length modern \<noteq> 0 then Inr modern
          else (case extractJobsWithLegacySelectors doc of
                  Inl e \<Rightarrow> Inl e
                | Inr legacy \<Rightarrow>
                    if length legacy \<noteq> 0 then Inr legacy else extractJobsGeneric doc))"

text \<open>
  \<^verbatim>\<open>xs.slice(0, end)\<close>: a negative \<open>end\<close> counts from the end of the array, and the result
  never runs past either end.
\<close>

definition slice0 :: "'a list \<Rightarrow> int \<Rightarrow> 'a list" where
  "slice0 xs end = take (nat (if end < 0 then int (length xs) + end else end)) xs"

definition extractJobs :: "AdapterConfig \<Rightarrow> document option \<Rightarrow> thrown + JobData list" where
  "extractJobs config page =
     (case page of
        None \<Rightarrow> Inl (Error ''Page not initialized'')
      | Some doc \<Rightarrow>
          (case discovered doc of
             Inl e \<Rightarrow> Inl e
           | Inr found \<Rightarrow> Inr (slice0 found (maxJobs config))))"

subsection \<open>initialize and navigateToJobsPage\<close>

text \<open>
  The state of the adapter is its field \<^verbatim>\<open>page\<close>: \<open>None\<close> before \<^verbatim>\<open>initialize\<close>, then the
  document that the page shows. The methods return what they throw, if anything, and the
  new state.
\<close>

definition initialize :: "browser \<Rightarrow> document option \<Rightarrow> thrown option \<times> document option" where
  "initialize b page =
     (case launch b of
        Some e \<Rightarrow> (Some e, page)
      | None \<Rightarrow>
          (case configure b of
             Some e \<Rightarrow> (Some e, Some blank_document)
           | None \<Rightarrow> (None, Some blank_document)))"

definition jobSelectors :: "string list" where
  \<open>jobSelectors =
     [''.JobSearchCard-item'', ''.JobCard'', ''.job-item'', ''.project-item'',
      ''[data-testid="job-card"]'']\<close>

text \<open>The variable \<^verbatim>\<open>contentLoaded\<close> after the loop over \<^verbatim>\<open>jobSelectors\<close>.\<close>

fun wait_loop :: "document \<Rightarrow> string list \<Rightarrow> bool" where
  "wait_loop doc [] = False"
| "wait_loop doc (selector # rest) =
     (case waitForSelector doc selector of None \<Rightarrow> True | Some e \<Rightarrow> wait_loop doc rest)"

definition navigateToJobsPage ::
  "browser \<Rightarrow> SearchFilters \<Rightarrow> document option \<Rightarrow> thrown option \<times> document option" where
  "navigateToJobsPage b filters page =
     (case page of
        None \<Rightarrow> (Some (Error ''Page not initialized. Call initialize() first.''), page)
      | Some current \<Rightarrow>
          (case goto b (buildSearchUrl filters) of
             Inl e \<Rightarrow> (Some e, page)
           | Inr doc \<Rightarrow>
               if \<not> wait_loop doc jobSelectors then (screenshot doc, Some doc)
               else (None, Some doc)))"

definition cleanup :: "document option \<Rightarrow> document option" where
  "cleanup page = (case page of None \<Rightarrow> None | Some doc \<Rightarrow> Some closed_document)"

subsection \<open>A sample page\<close>

text \<open>
  An element without children, a document with three such elements under \<^verbatim>\<open>.JobCard\<close>, and
  a browser that shows this document at every URL.
\<close>

definition leaf :: "string \<Rightarrow> element" where
  "leaf text = Element (Inr (Some text)) (\<lambda>selector. Inr None) (\<lambda>name. Inr None)"

definition budget_text :: string where
  "budget_text = ''Budget: $500 - $800, 3 reviews, Payment verified''"

definition sample_elements :: "element list" where
  "sample_elements = [leaf budget_text, leaf ''Go, go'', leaf ''PHP'']"

text \<open>What \<open>extractJobFromElement\<close> returns for an element without children.\<close>

definition leaf_job :: "string \<Rightarrow> JobData" where
  "leaf_job text =
     \<lparr>JobData.title = or_else (title_fallback text ''Untitled Job'') ''Untitled Job'',
      JobData.description =
        or_else (description_fallback text ''No description available'') ''No description available'',
      JobData.budget = or_else (fst (extract_budget text)) [],
      JobData.hourlyRate = or_else (fst (snd (extract_budget text))) [],
      JobData.skills = extractSkillsFromText text,
      JobData.postedTime = or_else (extract_postedTime text) ''Recently posted'',
      JobData.clientInfo =
        or_else (client_loop text clientPatterns) ''Client information not available'',
      JobData.jobUrl = [],
      JobData.jobType = or_else (snd (snd (extract_budget text))) ''Not specified'',
      JobData.duration = ''Not specified'',
      JobData.experienceLevel = or_else (extract_experience text) ''Not specified'',
      JobData.platform = ''freelancer''\<rparr>"

definition sample_document :: document where
  "sample_document =
     \<lparr>waitForSelector = (\<lambda>selector. if selector = ''.JobCard'' then None else Some (Error ''Timeout'')),
      queryAll = (\<lambda>selector. if selector = ''.JobCard'' then Inr sample_elements else Inr []),
      screenshot = None\<rparr>"

definition sample_browser :: browser where
  "sample_browser = \<lparr>launch = None, configure = None, goto = (\<lambda>url. Inr sample_document)\<rparr>"

definition sample_config :: AdapterConfig where
  "sample_config =
     \<lparr>timeout = 60000, maxJobs = 2, delayBetweenRequests = 2000, retryAttempts = 3,
      headless = True\<rparr>"

section \<open>BaseAdapter\<close>

text \<open>\<^verbatim>\<open>buildSearchQuery\<close>: the active filters, for the log and the result\<close>

definition buildSearchQuery :: "SearchFilters \<Rightarrow> string" where
  "buildSearchQuery filters =
     (let parts =
        (case keyword filters of
           None \<Rightarrow> []
         | Some k \<Rightarrow> if k \<noteq> [] then [''keyword: '' @ [dquote] @ k @ [dquote]] else []) @
        (case category filters of
           None \<Rightarrow> []
         | Some c \<Rightarrow> if c \<noteq> [] then [''category: '' @ [dquote] @ c @ [dquote]] else []) @
        (case tags filters of
           None \<Rightarrow> []
         | Some ts \<Rightarrow> if 0 < length ts then [''tags: ['' @ join '', '' ts @ '']''] else []) @
        (case SearchFilters.jobType filters of
           Some Fixed \<Rightarrow> [''type: fixed'']
         | Some HourlyJobs \<Rightarrow> [''type: hourly'']
         | _ \<Rightarrow> []) @
        (case SearchFilters.experienceLevel filters of
           Some Entry \<Rightarrow> [''experience: entry'']
         | Some Intermediate \<Rightarrow> [''experience: intermediate'']
         | Some Expert \<Rightarrow> [''experience: expert'']
         | _ \<Rightarrow> []) @
        (case minBudget filters of
           None \<Rightarrow> []
         | Some n \<Rightarrow> if n \<noteq> 0 then [''min budget: '' @ show_int n] else []) @
        (case maxBudget filters of
           None \<Rightarrow> []
         | Some n \<Rightarrow> if n \<noteq> 0 then [''max budget: '' @ show_int n] else []) @
        (case location filters of
           None \<Rightarrow> []
         | Some l \<Rightarrow> if l \<noteq> [] then [''location: '' @ [dquote] @ l @ [dquote]] else [])
      in if 0 < length parts then join '', '' parts else ''no filters'')"

text \<open>
  \<^verbatim>\<open>scrape\<close> is written once, in the abstract class, over the methods that each adapter
  supplies. An adapter is the record of these methods over its own state \<open>'s\<close>, with the name
  that its constructor hands to \<^verbatim>\<open>super\<close>.
\<close>

record 's adapter_methods =
  platformName :: string
  m_initialize :: "'s \<Rightarrow> thrown option \<times> 's"
  m_navigateToJobsPage :: "SearchFilters \<Rightarrow> 's \<Rightarrow> thrown option \<times> 's"
  m_extractJobs :: "'s \<Rightarrow> (thrown + JobData list) \<times> 's"
  m_cleanup :: "'s \<Rightarrow> 's"

text \<open>The result that the \<^verbatim>\<open>catch\<close> block of \<^verbatim>\<open>scrape\<close> returns: \<^verbatim>\<open>jobs\<close> is still empty there.\<close>

definition scrape_failed :: "'s adapter_methods \<Rightarrow> nat \<Rightarrow> SearchFilters \<Rightarrow> thrown \<Rightarrow> ScrapingResult" where
  "scrape_failed this startTime filters error =
     \<lparr>jobs = [], totalFound = 0, platform = platformName this,
      searchQuery = buildSearchQuery filters, timestamp = startTime, success = False,
      errors = Some [errorMessage error]\<rparr>"

text \<open>
  \<^verbatim>\<open>scrape(filters)\<close>, started at clock reading \<open>startTime\<close> in state \<open>s\<close>. The \<^verbatim>\<open>finally\<close> block
  runs \<^verbatim>\<open>cleanup\<close> on every path.
\<close>

definition scrape :: "'s adapter_methods \<Rightarrow> nat \<Rightarrow> SearchFilters \<Rightarrow> 's \<Rightarrow> ScrapingResult \<times> 's" where
  "scrape this startTime filters s =
     (case m_initialize this s of
        (Some error, s1) \<Rightarrow> (scrape_failed this startTime filters error, m_cleanup this s1)
      | (None, s1) \<Rightarrow>
          (case m_navigateToJobsPage this filters s1 of
             (Some error, s2) \<Rightarrow> (scrape_failed this startTime filters error, m_cleanup this s2)
           | (None, s2) \<Rightarrow>
               (case m_extractJobs this s2 of
                  (Inl error, s3) \<Rightarrow>
                    (scrape_failed this startTime filters error, m_cleanup this s3)
                | (Inr found, s3) \<Rightarrow>
                    (let stamped = map (\<lambda>job. job\<lparr>JobData.platform := platformName this\<rparr>) found
                     in (\<lparr>jobs = stamped, totalFound = length stamped,
                          platform = platformName this,
                          searchQuery = buildSearchQuery filters, timestamp = startTime,
                          success = True, errors = None\<rparr>,
                         m_cleanup this s3)))))"

text \<open>The one adapter of the repository, on a given browser.\<close>

definition FreelancerAdapter :: "browser \<Rightarrow> AdapterConfig \<Rightarrow> (document option) adapter_methods" where
  "FreelancerAdapter b config =
     \<lparr>platformName = ''freelancer'',
      m_initialize = initialize b,
      m_navigateToJobsPage = navigateToJobsPage b,
      m_extractJobs = (\<lambda>page. (extractJobs config page, page)),
      m_cleanup = cleanup\<rparr>"

section \<open>ScraperOrchestrator\<close>

text \<open>
  The orchestrator calls two methods of a registered adapter: \<^verbatim>\<open>scrape\<close>, which here may
  also reject, as an adapter that overrides it can, and \<^verbatim>\<open>buildSearchUrl\<close>, which it tests
  for presence before the call. The registry is a map from platform identifiers to
  adapters. What the orchestrator hands to the file writers and the pauses it takes are
  kept in a log; \<^verbatim>\<open>saveResults\<close> and \<^verbatim>\<open>saveCombinedResults\<close> catch every error of the
  writers, so a save is one entry whatever the writers do.
\<close>

record Adapter =
  adapter_scrape :: "SearchFilters \<Rightarrow> thrown + ScrapingResult"
  adapter_buildSearchUrl :: "(SearchFilters \<Rightarrow> string) option"

datatype event =
    SaveResults ScrapingResult
  | SaveCombinedResults "ScrapingResult list" SearchFilters
  | Delay int

text \<open>
  \<^verbatim>\<open>scrapeFromPlatform(platform, filters)\<close> at clock reading \<open>now\<close>: it throws for a platform
  without an adapter and turns a rejected \<^verbatim>\<open>scrape\<close> into a failed result.
\<close>

definition scrapeFromPlatform ::
  "(string \<rightharpoonup> Adapter) \<Rightarrow> nat \<Rightarrow> string \<Rightarrow> SearchFilters \<Rightarrow> event list
     \<Rightarrow> (thrown + ScrapingResult) \<times> event list" where
  "scrapeFromPlatform adapters now platformId filters log =
     (case adapters platformId of
        None \<Rightarrow>
          (Inl (Error (''Adapter for platform '' @ [dquote] @ platformId @ [dquote] @
                  '' is not available'')), log)
      | Some adapter \<Rightarrow>
          (case adapter_scrape adapter filters of
             Inr result \<Rightarrow>
               (Inr result, if 0 < length (jobs result) then log @ [SaveResults result] else log)
           | Inl error \<Rightarrow>
               (Inr \<lparr>jobs = [], totalFound = 0, platform = platformId,
                     searchQuery = (case adapter_buildSearchUrl adapter of
                                      Some build \<Rightarrow> build filters
                                    | None \<Rightarrow> ''N/A''),
                     timestamp = now, success = False,
                     errors = Some [errorMessage error]\<rparr>, log)))"

text \<open>\<^verbatim>\<open>xs.indexOf(x)\<close>: the first position of \<open>x\<close>, or -1\<close>

fun indexOf :: "'a list \<Rightarrow> 'a \<Rightarrow> int" where
  "indexOf [] x = - 1"
| "indexOf (y # ys) x = (if y = x then 0 else (let i = indexOf ys x in if i < 0 then - 1 else i + 1))"

text \<open>
  The \<^verbatim>\<open>for (const platform of platforms)\<close> loop of \<^verbatim>\<open>scrapeFromMultiplePlatforms\<close>, with the
  array \<^verbatim>\<open>results\<close> and the log as it goes. \<open>delayMs\<close> is \<^verbatim>\<open>config.delayBetweenRequests\<close>.
\<close>

fun platforms_loop ::
  "(string \<rightharpoonup> Adapter) \<Rightarrow> int \<Rightarrow> nat \<Rightarrow> string list \<Rightarrow> SearchFilters \<Rightarrow> string list
     \<Rightarrow> ScrapingResult list \<Rightarrow> event list \<Rightarrow> ScrapingResult list \<times> event list" where
  "platforms_loop adapters delayMs now platforms filters [] results log = (results, log)"
| "platforms_loop adapters delayMs now platforms filters (platformId # rest) results log =
     (case scrapeFromPlatform adapters now platformId filters log of
        (Inr result, log1) \<Rightarrow>
          platforms_loop adapters delayMs now platforms filters rest (results @ [result])
            (if indexOf platforms platformId < int (length platforms) - 1
             then log1 @ [Delay delayMs] else log1)
      | (Inl error, log1) \<Rightarrow>
          platforms_loop adapters delayMs now platforms filters rest
            (results @
             [\<lparr>jobs = [], totalFound = 0, platform = platformId, searchQuery = ''N/A'',
               timestamp = now, success = False, errors = Some [errorMessage error]\<rparr>])
            log1)"

definition scrapeFromMultiplePlatforms ::
  "(string \<rightharpoonup> Adapter) \<Rightarrow> int \<Rightarrow> nat \<Rightarrow> string list \<Rightarrow> SearchFilters \<Rightarrow> event list
     \<Rightarrow> ScrapingResult list \<times> event list" where
  "scrapeFromMultiplePlatforms adapters delayMs now platforms filters log =
     (case platforms_loop adapters delayMs now platforms filters platforms [] log of
        (results, log1) \<Rightarrow>
          (results,
           if 0 < length (concat (map jobs results))
           then log1 @ [SaveCombinedResults results filters] else log1))"

text \<open>
  The entry of one requested platform in the returned array, as a function of that
  platform alone: the adapter's own result, or a failed result that holds the message of
  what was thrown.
\<close>

definition platform_outcome ::
  "(string \<rightharpoonup> Adapter) \<Rightarrow> nat \<Rightarrow> SearchFilters \<Rightarrow> string \<Rightarrow> ScrapingResult" where
  "platform_outcome adapters now filters platformId =
     (case adapters platformId of
        None \<Rightarrow>
          \<lparr>jobs = [], totalFound = 0, platform = platformId, searchQuery = ''N/A'',
           timestamp = now, success = False,
           errors = Some [''Adapter for platform '' @ [dquote] @ platformId @ [dquote] @
                          '' is not available'']\<rparr>
      | Some adapter \<Rightarrow>
          (case adapter_scrape adapter filters of
             Inr result \<Rightarrow> result
           | Inl error \<Rightarrow>
               \<lparr>jobs = [], totalFound = 0, platform = platformId,
                searchQuery = (case adapter_buildSearchUrl adapter of
                                 Some build \<Rightarrow> build filters
                               | None \<Rightarrow> ''N/A''),
                timestamp = now, success = False, errors = Some [errorMessage error]\<rparr>))"

subsection \<open>getStatistics\<close>

text \<open>
  \<^verbatim>\<open>skillFrequency\<close> is a plain object used as a dictionary: its own properties, in the order
  in which they were created, with their values. \<^verbatim>\<open>Object.entries\<close> lists the properties
  whose names are array indices first, in ascending numeric order, and then the others in
  creation order. An array index is the decimal numeral, without a sign or leading zeros,
  of a number below \<open>2^32 - 1\<close>.

  The object inherits from \<^verbatim>\<open>Object.prototype\<close>. For a skill that names an inherited
  property, \<^verbatim>\<open>skillFrequency[skill]\<close> is not \<^verbatim>\<open>undefined\<close> at the first visit and the sum is
  not a number. These names are left out of the model: what is proved below about the
  histogram assumes that no skill is one of \<open>inherited_names\<close>.
\<close>

type_synonym js_object = "(string \<times> nat) list"

definition inherited_names :: "string list" where
  "inherited_names =
     [''constructor'', ''__proto__'', ''hasOwnProperty'', ''isPrototypeOf'',
      ''propertyIsEnumerable'', ''toLocaleString'', ''toString'', ''valueOf'',
      ''__defineGetter__'', ''__defineSetter__'', ''__lookupGetter__'', ''__lookupSetter__'']"

definition digits_value :: "string \<Rightarrow> int" where
  "digits_value s = foldl (\<lambda>n c. 10 * n + (of_char c - 48)) 0 s"

definition is_array_index :: "string \<Rightarrow> bool" where
  "is_array_index s \<longleftrightarrow>
     s \<noteq> [] \<and> list_all is_digit s \<and> (length s = 1 \<or> hd s \<noteq> CHR ''0'') \<and>
     digits_value s < 4294967295"

text \<open>\<^verbatim>\<open>skillFrequency[skill] = (skillFrequency[skill] || 0) + 1\<close>\<close>

definition bump :: "js_object \<Rightarrow> string \<Rightarrow> js_object" where
  "bump obj k =
     (case map_of obj k of
        None \<Rightarrow> obj @ [(k, 0 + 1)]
      | Some n \<Rightarrow> map (\<lambda>(k', v). if k' = k then (k', n + 1) else (k', v)) obj)"

definition object_entries :: "js_object \<Rightarrow> (string \<times> nat) list" where
  "object_entries obj =
     sort_key (\<lambda>(k, v). digits_value k) (filter (\<lambda>(k, v). is_array_index k) obj) @
     filter (\<lambda>(k, v). \<not> is_array_index k) obj"

record platform_stat =
  stat_platform :: string
  stat_jobs :: nat
  stat_success :: bool
  stat_errors :: nat

record skill_count =
  skill :: string
  count :: nat

record statistics =
  totalJobs :: nat
  totalPlatforms :: nat
  successfulPlatforms :: nat
  failedPlatforms :: nat
  platformStats :: "platform_stat list"
  topSkills :: "skill_count list"
  stats_timestamp :: nat

text \<open>The object \<^verbatim>\<open>skillFrequency\<close> after the three nested \<^verbatim>\<open>forEach\<close> loops.\<close>

definition skillFrequency :: "ScrapingResult list \<Rightarrow> js_object" where
  "skillFrequency results =
     foldl (\<lambda>obj result. foldl (\<lambda>obj job. foldl bump obj (JobData.skills job)) obj (jobs result))
       [] results"

text \<open>
  \<^verbatim>\<open>getStatistics(results)\<close> at clock reading \<open>now\<close>. The comparator \<^verbatim>\<open>b - a\<close> on the counts
  orders by descending count, and \<^verbatim>\<open>sort\<close> is stable: a stable sort on the negated count.
\<close>

definition getStatistics :: "nat \<Rightarrow> ScrapingResult list \<Rightarrow> statistics" where
  "getStatistics now results =
     (let successful = length (filter success results) in
      \<lparr>totalJobs = foldl (\<lambda>sum result. sum + length (jobs result)) 0 results,
       totalPlatforms = length results,
       successfulPlatforms = successful,
       failedPlatforms = length results - successful,
       platformStats =
         map (\<lambda>result. \<lparr>stat_platform = platform result, stat_jobs = length (jobs result),
                          stat_success = success result,
                          stat_errors = (case errors result of None \<Rightarrow> 0 | Some es \<Rightarrow> length es)\<rparr>)
           results,
       topSkills =
         map (\<lambda>(k, v). \<lparr>skill = k, count = v\<rparr>)
           (take 10 (sort_key (\<lambda>(k, v). - int v) (object_entries (skillFrequency results)))),
       stats_timestamp = now\<rparr>)"

text \<open>
  A registry for the examples: the scrape of \<open>alpha\<close> always rejects, \<open>beta\<close> returns one
  listing, and no other platform is registered.
\<close>

definition beta_result :: ScrapingResult where
  "beta_result =
     \<lparr>jobs = [quoted_job\<lparr>JobData.platform := ''beta''\<rparr>], totalFound = 1, platform = ''beta'',
      searchQuery = ''no filters'', timestamp = 7, success = True, errors = None\<rparr>"

definition sample_adapters :: "string \<rightharpoonup> Adapter" where
  "sample_adapters =
     map_of
       [(''alpha'', \<lparr>adapter_scrape = (\<lambda>filters. Inl (Error ''browser crashed'')),
                    adapter_buildSearchUrl = Some buildSearchUrl\<rparr>),
        (''beta'', \<lparr>adapter_scrape = (\<lambda>filters. Inr beta_result),
                   adapter_buildSearchUrl = Some buildSearchUrl\<rparr>)]"

definition no_filters :: SearchFilters where
  "no_filters =
     \<lparr>keyword = None, category = None, tags = None, minBudget = None, maxBudget = None,
      jobType = None, experienceLevel = None, location = None, sortBy = None\<rparr>"

subsection \<open>The histogram in words\<close>

text \<open>
  The skills of all listings of all results, in the order of the results, their listings
  and their skills: the order in which the loops meet them.
\<close>

definition all_skills :: "ScrapingResult list \<Rightarrow> string list" where
  "all_skills results = concat (map JobData.skills (concat (map jobs results)))"

text \<open>
  The order in which an object lists keys that were created in the order \<open>ks\<close>: the array
  indices by ascending value, then the other keys as created.
\<close>

definition key_order :: "string list \<Rightarrow> string list" where
  "key_order ks = sort_key digits_value (filter is_array_index ks) @ filter (\<lambda>k. \<not> is_array_index k) ks"

text \<open>
  Every skill that occurs, once, with the number of its occurrences, in the key order of
  the skills as first met.
\<close>

definition histogram :: "ScrapingResult list \<Rightarrow> (string \<times> nat) list" where
  "histogram results =
     map (\<lambda>k. (k, count_list (all_skills results) k)) (key_order (unique (all_skills results)))"

definition plain_skills :: "ScrapingResult list \<Rightarrow> bool" where
  "plain_skills results = list_all (\<lambda>k. k \<notin> set inherited_names) (all_skills results)"

text \<open>Results for the examples: one listing per result, with the given skills.\<close>

definition result_with :: "string list \<Rightarrow> ScrapingResult" where
  "result_with ks =
     \<lparr>jobs = [quoted_job\<lparr>JobData.skills := ks\<rparr>], totalFound = 1, platform = ''freelancer'',
      searchQuery = ''no filters'', timestamp = 7, success = True, errors = None\<rparr>"

section \<open>Properties of retry\<close>

lemma retry_loop_success:
  "\<lbrakk>\<forall>i<k. isl (operation (calls + i)); operation (calls + k) = Inr v;
    attempt + int k \<le> maxAttempts\<rbrakk>
   \<Longrightarrow> retry_loop operation maxAttempts attempt delay lastError calls slept =
       \<lparr>outcome = Inr v, invocations = calls + k + 1, waited = slept + delay * (2 ^ k - 1)\<rparr>"
proof (induction k arbitrary: attempt delay lastError calls slept)
  case 0
  then show ?case
    by (subst retry_loop.simps) simp
next
  case (Suc k)
  from Suc.prems(1) obtain e where e: "operation calls = Inl e"
    by (metis add.right_neutral isl_def zero_less_Suc)
  have later: "\<forall>i<k. isl (operation (Suc calls + i))"
    using Suc.prems(1) by (metis Suc_less_eq add_Suc_right add_Suc_shift)
  have ret: "operation (Suc calls + k) = Inr v"
    using Suc.prems(2) by simp
  have bound: "(attempt + 1) + int k \<le> maxAttempts"
    using Suc.prems(3) by simp
  have step: "retry_loop operation maxAttempts attempt delay lastError calls slept =
      retry_loop operation maxAttempts (attempt + 1) (delay * 2) (asError e) (Suc calls)
        (slept + delay)"
    using Suc.prems(3) e by (subst retry_loop.simps) simp
  show ?case
    unfolding step Suc.IH [OF later ret bound]
    by (simp add: algebra_simps)
qed

lemma retry_loop_exhausted:
  "\<lbrakk>\<forall>i\<le>k. isl (operation (calls + i)); attempt + int k = maxAttempts\<rbrakk>
   \<Longrightarrow> retry_loop operation maxAttempts attempt delay lastError calls slept =
       \<lparr>outcome = Inl (asError (projl (operation (calls + k)))),
        invocations = calls + k + 1, waited = slept + delay * (2 ^ k - 1)\<rparr>"
proof (induction k arbitrary: attempt delay lastError calls slept)
  case 0
  then obtain e where "operation calls = Inl e"
    by (metis add.right_neutral isl_def le_refl)
  with 0 show ?case
    by (subst retry_loop.simps) simp
next
  case (Suc k)
  from Suc.prems(1) obtain e where e: "operation calls = Inl e"
    by (metis add.right_neutral isl_def le0)
  have later: "\<forall>i\<le>k. isl (operation (Suc calls + i))"
    using Suc.prems(1) by (metis Suc_le_mono add_Suc_right add_Suc_shift)
  have bound: "(attempt + 1) + int k = maxAttempts"
    using Suc.prems(2) by simp
  have step: "retry_loop operation maxAttempts attempt delay lastError calls slept =
      retry_loop operation maxAttempts (attempt + 1) (delay * 2) (asError e) (Suc calls)
        (slept + delay)"
    using Suc.prems(2) e by (subst retry_loop.simps) simp
  show ?case
    unfolding step Suc.IH [OF later bound]
    by (simp add: algebra_simps)
qed

text \<open>
  C3, as stated, fails in its last part when the operation rejects with a value that is not
  an \<^verbatim>\<open>Error\<close> object: \<^verbatim>\<open>retry\<close> then throws a new \<^verbatim>\<open>Error('Unknown error')\<close>, not what the last
  attempt threw.
\<close>

theorem retry_reraise_counterexample:
  "offline_operation 0 = Inl (Other ''offline'') \<and>
   retry offline_operation 1 1000 =
     \<lparr>outcome = Inl (Error ''Unknown error''), invocations = 1, waited = 0\<rparr> \<and>
   outcome (retry offline_operation 1 1000) \<noteq> offline_operation 0"
  by (simp add: retry_def retry_loop.simps offline_operation_def)

text \<open>
  C3, amended. An operation that fails exactly \<open>k\<close> times and then succeeds, retried with
  \<open>maxAttempts > k\<close>, is invoked exactly \<open>k + 1\<close> times, its value is returned, and the
  waits before the success add up to \<open>baseDelay * (2 ^ k - 1)\<close>. When the operation fails on
  all \<open>maxAttempts\<close> attempts (there is at least one), it is invoked exactly \<open>maxAttempts\<close>
  times, the waits add up to \<open>baseDelay * (2 ^ (maxAttempts - 1) - 1)\<close>, and \<open>retry\<close> throws:
  the error of the last attempt, as it was thrown, if that is an \<^verbatim>\<open>Error\<close> object, and a new
  \<^verbatim>\<open>Error('Unknown error')\<close> if the last attempt threw any other value.
\<close>

theorem retry_backoff:
  "(fails_then_succeeds operation k v \<and> int k < maxAttempts \<longrightarrow>
      retry operation maxAttempts baseDelay =
        \<lparr>outcome = Inr v, invocations = k + 1, waited = baseDelay * (2 ^ k - 1)\<rparr>) \<and>
   (1 \<le> maxAttempts' \<and> fails_first operation' (nat maxAttempts') \<and>
    operation' (nat maxAttempts' - 1) = Inl (Error msg) \<longrightarrow>
      retry operation' maxAttempts' baseDelay' =
        \<lparr>outcome = Inl (Error msg), invocations = nat maxAttempts',
         waited = baseDelay' * (2 ^ (nat maxAttempts' - 1) - 1)\<rparr>) \<and>
   (1 \<le> maxAttempts' \<and> fails_first operation' (nat maxAttempts') \<and>
    (operation' (nat maxAttempts' - 1) = Inl Undefined \<or>
     operation' (nat maxAttempts' - 1) = Inl (Other x)) \<longrightarrow>
      retry operation' maxAttempts' baseDelay' =
        \<lparr>outcome = Inl (Error ''Unknown error''), invocations = nat maxAttempts',
         waited = baseDelay' * (2 ^ (nat maxAttempts' - 1) - 1)\<rparr>)"
proof -
  have exhausted: "retry operation' maxAttempts' baseDelay' =
      \<lparr>outcome = Inl (asError (projl (operation' (nat maxAttempts' - 1)))),
       invocations = nat maxAttempts',
       waited = baseDelay' * (2 ^ (nat maxAttempts' - 1) - 1)\<rparr>"
    if h: "1 \<le> maxAttempts'" "fails_first operation' (nat maxAttempts')"
  proof -
    define n where "n = nat maxAttempts' - 1"
    from h have "\<forall>i\<le>n. isl (operation' (0 + i))" and "1 + int n = maxAttempts'"
      by (auto simp: fails_first_def n_def)
    from retry_loop_exhausted [OF this]
    have "retry operation' maxAttempts' baseDelay' =
        \<lparr>outcome = Inl (asError (projl (operation' n))), invocations = n + 1,
         waited = baseDelay' * (2 ^ n - 1)\<rparr>"
      by (simp add: retry_def)
    moreover from h have "n + 1 = nat maxAttempts'"
      by (simp add: n_def)
    ultimately show ?thesis
      by (simp add: n_def)
  qed
  show ?thesis
  proof (intro conjI impI)
    assume "fails_then_succeeds operation k v \<and> int k < maxAttempts"
    then have "\<forall>i<k. isl (operation (0 + i))" and "operation (0 + k) = Inr v"
      and "1 + int k \<le> maxAttempts"
      by (simp_all add: fails_then_succeeds_def)
    from retry_loop_success [OF this]
    show "retry operation maxAttempts baseDelay =
        \<lparr>outcome = Inr v, invocations = k + 1, waited = baseDelay * (2 ^ k - 1)\<rparr>"
      by (simp add: retry_def)
  next
    assume "1 \<le> maxAttempts' \<and> fails_first operation' (nat maxAttempts') \<and>
      operation' (nat maxAttempts' - 1) = Inl (Error msg)"
    with exhausted show "retry operation' maxAttempts' baseDelay' =
        \<lparr>outcome = Inl (Error msg), invocations = nat maxAttempts',
         waited = baseDelay' * (2 ^ (nat maxAttempts' - 1) - 1)\<rparr>"
      by simp
  next
    assume "1 \<le> maxAttempts' \<and> fails_first operation' (nat maxAttempts') \<and>
      (operation' (nat maxAttempts' - 1) = Inl Undefined \<or>
       operation' (nat maxAttempts' - 1) = Inl (Other x))"
    with exhausted show "retry operation' maxAttempts' baseDelay' =
        \<lparr>outcome = Inl (Error ''Unknown error''), invocations = nat maxAttempts',
         waited = baseDelay' * (2 ^ (nat maxAttempts' - 1) - 1)\<rparr>"
      by auto
  qed
qed

theorem retry_backoff_witness:
  "fails_then_succeeds flaky_operation 2 7 \<and> int 2 < 3 \<and>
   retry flaky_operation 3 1000 = \<lparr>outcome = Inr 7, invocations = 3, waited = 3000\<rparr> \<and>
   (1::int) \<le> 3 \<and> fails_first failing_operation (nat 3) \<and>
   failing_operation (nat 3 - 1) = Inl (Error ''timeout'') \<and>
   retry failing_operation 3 1000 =
     \<lparr>outcome = Inl (Error ''timeout''), invocations = 3, waited = 3000\<rparr> \<and>
   fails_first offline_operation (nat 3) \<and>
   offline_operation (nat 3 - 1) = Inl (Other ''offline'') \<and>
   retry offline_operation 3 1000 =
     \<lparr>outcome = Inl (Error ''Unknown error''), invocations = 3, waited = 3000\<rparr>"
proof -
  have a: "fails_then_succeeds flaky_operation 2 7"
    by (simp add: fails_then_succeeds_def flaky_operation_def)
  have b: "fails_first failing_operation (nat 3)"
    "failing_operation (nat 3 - 1) = Inl (Error ''timeout'')"
    by (simp_all add: fails_first_def failing_operation_def)
  have c: "fails_first offline_operation (nat 3)"
    "offline_operation (nat 3 - 1) = Inl (Other ''offline'')"
    by (simp_all add: fails_first_def offline_operation_def)
  note timeouts = retry_backoff [where operation = flaky_operation and k = 2 and v = 7
      and maxAttempts = 3 and baseDelay = 1000 and operation' = failing_operation
      and maxAttempts' = 3 and baseDelay' = 1000 and msg = "''timeout''" and x = "''offline''"]
  note offline = retry_backoff [where operation = flaky_operation and k = 2 and v = 7
      and maxAttempts = 3 and baseDelay = 1000 and operation' = offline_operation
      and maxAttempts' = 3 and baseDelay' = 1000 and msg = "''timeout''" and x = "''offline''"]
  have first: "retry flaky_operation 3 1000 = \<lparr>outcome = Inr 7, invocations = 3, waited = 3000\<rparr>"
    using a timeouts by simp
  have second: "retry failing_operation 3 1000 =
      \<lparr>outcome = Inl (Error ''timeout''), invocations = 3, waited = 3000\<rparr>"
    using b timeouts by simp
  have third: "retry offline_operation 3 1000 =
      \<lparr>outcome = Inl (Error ''Unknown error''), invocations = 3, waited = 3000\<rparr>"
    using c offline by simp
  show ?thesis
    using a b c first second third by simp
qed

text \<open>
  C10. With \<open>maxAttempts \<le> 0\<close> the loop body never runs: the operation is not invoked,
  nothing is waited for, and \<open>retry\<close> throws the unassigned \<^verbatim>\<open>lastError\<close>, which is
  \<^verbatim>\<open>undefined\<close>. The contract of C3 therefore needs \<open>maxAttempts \<ge> 1\<close>.
\<close>

theorem retry_no_attempts:
  "maxAttempts \<le> 0 \<Longrightarrow>
     retry operation maxAttempts delay = \<lparr>outcome = Inl Undefined, invocations = 0, waited = 0\<rparr>"
  by (simp add: retry_def retry_loop.simps)

theorem retry_no_attempts_witness:
  "(0::int) \<le> 0 \<and>
   retry (\<lambda>i. Inr (7::nat)) 0 1000 = \<lparr>outcome = Inl Undefined, invocations = 0, waited = 0\<rparr>"
  using retry_no_attempts [of 0 "\<lambda>i. Inr (7::nat)" 1000] by simp

section \<open>Properties of the CSV output\<close>

lemma parse_csv_comma:
  "m \<noteq> Quoted \<Longrightarrow>
     parse_csv m cur row rows (comma # cs) = parse_csv Start [] (rev cur # row) rows cs"
  by (cases m) simp_all

lemma parse_csv_newline:
  "m \<noteq> Quoted \<Longrightarrow>
     parse_csv m cur row rows (newline # cs) = parse_csv Start [] [] (rev (rev cur # row) # rows) cs"
  by (cases m) simp_all

lemma parse_csv_plain:
  "\<lbrakk>comma \<notin> set v; dquote \<notin> set v; newline \<notin> set v; m = Start \<or> m = Plain\<rbrakk>
   \<Longrightarrow> \<exists>m'. m' \<noteq> Quoted \<and>
         parse_csv m cur row rows (v @ rest) = parse_csv m' (rev v @ cur) row rows rest"
proof (induction v arbitrary: m cur)
  case Nil
  then show ?case by auto
next
  case (Cons c v)
  then have "parse_csv m cur row rows ((c # v) @ rest) = parse_csv Plain (c # cur) row rows (v @ rest)"
    by auto
  moreover from Cons obtain m' where "m' \<noteq> Quoted"
    and "parse_csv Plain (c # cur) row rows (v @ rest) = parse_csv m' (rev v @ c # cur) row rows rest"
    by fastforce
  ultimately show ?case by auto
qed

lemma parse_csv_quoted:
  "parse_csv Quoted cur row rows (replace_char dquote [dquote, dquote] v @ dquote # rest) =
     parse_csv QuoteSeen (rev v @ cur) row rows rest"
  by (induction v arbitrary: cur) (simp_all add: replace_char_def)

lemma parse_csv_cell:
  "\<exists>m. m \<noteq> Quoted \<and>
     parse_csv Start [] row rows (csv_cell v @ rest) = parse_csv m (rev v) row rows rest"
proof (cases "comma \<in> set v \<or> dquote \<in> set v \<or> newline \<in> set v")
  case True
  then have "csv_cell v @ rest = dquote # replace_char dquote [dquote, dquote] v @ dquote # rest"
    by (simp add: csv_cell_def)
  then show ?thesis
    using parse_csv_quoted [of "[]" row rows v rest] by auto
next
  case False
  then have "csv_cell v = v"
    by (simp add: csv_cell_def)
  with False parse_csv_plain [of v Start "[]" row rows rest] show ?thesis
    by auto
qed

lemma parse_csv_row:
  "vs \<noteq> [] \<Longrightarrow>
     \<exists>m. m \<noteq> Quoted \<and>
       parse_csv Start [] row rows (join [comma] (map csv_cell vs) @ rest) =
       parse_csv m (rev (last vs)) (rev (butlast vs) @ row) rows rest"
proof (induction vs arbitrary: row rule: list_nonempty_induct)
  case (single v)
  show ?case
    using parse_csv_cell [of row rows v rest] by simp
next
  case (cons v vs)
  then obtain w ws where vs: "vs = w # ws"
    by (cases vs) auto
  obtain m where m: "m \<noteq> Quoted"
    and first: "parse_csv Start [] row rows (csv_cell v @ comma # join [comma] (map csv_cell vs) @ rest) =
      parse_csv m (rev v) row rows (comma # join [comma] (map csv_cell vs) @ rest)"
    using parse_csv_cell [of row rows v "comma # join [comma] (map csv_cell vs) @ rest"] by auto
  obtain m' where m': "m' \<noteq> Quoted"
    and others: "parse_csv Start [] (v # row) rows (join [comma] (map csv_cell vs) @ rest) =
      parse_csv m' (rev (last vs)) (rev (butlast vs) @ v # row) rows rest"
    using cons.IH [of "v # row"] by auto
  have "parse_csv Start [] row rows (join [comma] (map csv_cell (v # vs)) @ rest) =
      parse_csv m' (rev (last vs)) (rev (butlast vs) @ v # row) rows rest"
    using first others m by (simp add: vs parse_csv_comma)
  with m' cons.hyps show ?case
    by auto
qed

lemma parse_csv_table:
  "\<lbrakk>table \<noteq> []; \<forall>vs \<in> set table. vs \<noteq> []\<rbrakk>
   \<Longrightarrow> parse_csv Start [] [] rows (csv_text table) = rev rows @ table"
proof (induction table arbitrary: rows rule: list_nonempty_induct)
  case (single vs)
  then have "vs \<noteq> []" by simp
  from parse_csv_row [OF this, of "[]" rows "[]"]
  obtain m where "parse_csv Start [] [] rows (join [comma] (map csv_cell vs)) =
      parse_csv m (rev (last vs)) (rev (butlast vs)) rows []"
    by auto
  with \<open>vs \<noteq> []\<close> show ?case
    by (simp add: csv_text_def)
next
  case (cons vs table)
  then have ne: "vs \<noteq> []" by simp
  from cons.hyps obtain t ts where table: "table = t # ts"
    by (cases table) auto
  from parse_csv_row [OF ne, of "[]" rows "newline # csv_text table"]
  obtain m where m: "m \<noteq> Quoted"
    and "parse_csv Start [] [] rows (join [comma] (map csv_cell vs) @ newline # csv_text table) =
      parse_csv m (rev (last vs)) (rev (butlast vs)) rows (newline # csv_text table)"
    by auto
  then have "parse_csv Start [] [] rows (csv_text (vs # table)) =
      parse_csv Start [] [] (vs # rows) (csv_text table)"
    using ne by (simp add: csv_text_def table parse_csv_newline)
  with cons show ?case
    by simp
qed

lemma csv_cell_headers: "map csv_cell headers = headers"
  by (simp add: headers_def csv_cell_def)

lemma createCsvContent_text:
  "createCsvContent listings = csv_text (headers # map (\<lambda>job. csv_values (jobDataToCsvRecord job)) listings)"
proof -
  have "join [comma] headers = join [comma] (map csv_cell headers)"
    by (simp only: csv_cell_headers)
  then show ?thesis
    by (simp add: createCsvContent_def csv_text_def csv_values_def comp_def)
qed

lemma parseCsv_createCsvContent:
  "parseCsv (createCsvContent listings) = headers # map (\<lambda>job. csv_values (jobDataToCsvRecord job)) listings"
proof -
  have "\<forall>vs \<in> set (headers # map (\<lambda>job. csv_values (jobDataToCsvRecord job)) listings). vs \<noteq> []"
    by (auto simp: csv_values_def headers_def)
  then show ?thesis
    unfolding parseCsv_def createCsvContent_text
    using parse_csv_table [of "headers # map (\<lambda>job. csv_values (jobDataToCsvRecord job)) listings" "[]"]
    by simp
qed

text \<open>
  Two listings that differ in their description only, one with a comma where the other has
  a semicolon, give the same file: no reader can return both descriptions.
\<close>

lemma createCsvContent_collision:
  "createCsvContent [quoted_job] =
     createCsvContent [quoted_job\<lparr>JobData.description :=
       ''Say '' @ [dquote] @ ''hi'' @ [dquote] @ '';'' @ [newline] @ ''twice''\<rparr>]"
  by (simp add: createCsvContent_def quoted_job_def jobDataToCsvRecord_def headers_def
      record_field_def csv_cell_def replace_char_def)

text \<open>
  C1, as stated, fails: \<^verbatim>\<open>jobDataToCsvRecord\<close> rewrites the description before it is
  quoted, so the description of \<open>quoted_job\<close>, which holds a comma, a double quote and a
  newline, does not come back.
\<close>

theorem csv_description_roundtrip_counterexample:
  "comma \<in> set (JobData.description quoted_job) \<and>
   dquote \<in> set (JobData.description quoted_job) \<and>
   newline \<in> set (JobData.description quoted_job) \<and>
   description_read_back quoted_job =
     Some (''Say '' @ [dquote] @ ''hi'' @ [dquote] @ ''; twice'') \<and>
   description_read_back quoted_job \<noteq> Some (JobData.description quoted_job)"
  by (simp add: description_read_back_def parseCsv_createCsvContent csv_values_def headers_def
      record_field_def jobDataToCsvRecord_def quoted_job_def replace_char_def)

text \<open>
  C1, amended. For every listing, writing it to CSV (header row and one row) and reading
  the file back gives the description with every newline replaced by a space and every
  comma by a semicolon; all other characters, double quotes among them, come back
  unchanged.
\<close>

theorem csv_description_read_back:
  "description_read_back job =
     Some (replace_char comma '';'' (replace_char newline '' '' (JobData.description job)))"
  by (simp add: description_read_back_def parseCsv_createCsvContent csv_values_def headers_def
      record_field_def jobDataToCsvRecord_def)

section \<open>Properties of buildSearchUrl\<close>

lemma search_params_category: "search_params (filters\<lparr>category := c\<rparr>) = search_params filters"
  by (simp add: search_params_def keyword_params_def tags_params_def type_params_def
      budget_params_def sort_params_def)

lemma search_params_tags_unused:
  "truthy (keyword filters) \<Longrightarrow> search_params (filters\<lparr>tags := ts\<rparr>) = search_params filters"
  by (simp add: search_params_def keyword_params_def tags_params_def type_params_def
      budget_params_def sort_params_def)

lemma search_path_tags: "search_path (filters\<lparr>tags := ts\<rparr>) = search_path filters"
  by (simp add: search_path_def)

lemma type_params_keys: "(k, v) \<in> set (type_params filters) \<Longrightarrow> k = ''type''"
proof (cases "SearchFilters.jobType filters")
  case None
  then show "(k, v) \<in> set (type_params filters) \<Longrightarrow> k = ''type''"
    by (simp add: type_params_def)
next
  case (Some t)
  then show "(k, v) \<in> set (type_params filters) \<Longrightarrow> k = ''type''"
    by (cases t) (simp_all add: type_params_def)
qed

lemma budget_params_keys:
  "(k, v) \<in> set (budget_params filters) \<Longrightarrow> k = ''min_price'' \<or> k = ''max_price''"
  by (auto simp: budget_params_def split: if_splits)

lemma sort_params_keys: "(k, v) \<in> set (sort_params filters) \<Longrightarrow> k = ''sort''"
proof (cases "sortBy filters")
  case None
  then show "(k, v) \<in> set (sort_params filters) \<Longrightarrow> k = ''sort''"
    by (simp add: sort_params_def)
next
  case (Some t)
  then show "(k, v) \<in> set (sort_params filters) \<Longrightarrow> k = ''sort''"
    by (cases t) (simp_all add: sort_params_def)
qed

lemma keyword_params_keys: "(k, v) \<in> set (keyword_params filters) \<Longrightarrow> k = ''keyword''"
  by (auto simp: keyword_params_def split: option.splits if_splits)

lemma tags_params_keys: "(k, v) \<in> set (tags_params filters) \<Longrightarrow> k = ''keyword''"
  by (cases "truthy (keyword filters)"; cases "tags filters"; cases "the (tags filters) = []")
    (simp_all add: tags_params_def)

lemma map_of_append_absent: "k \<notin> fst ` set qs \<Longrightarrow> map_of (ps @ qs) k = map_of ps k"
  by (induction ps) (auto simp: map_of_eq_None_iff)

lemma map_of_keyword:
  "map_of (search_params filters) ''keyword'' =
     map_of (keyword_params filters @ tags_params filters) ''keyword''"
proof -
  have "''keyword'' \<notin> fst ` set (type_params filters @ budget_params filters @ sort_params filters)"
    by (auto dest: type_params_keys budget_params_keys sort_params_keys)
  from map_of_append_absent [OF this, of "keyword_params filters @ tags_params filters"]
  show ?thesis
    by (simp add: search_params_def)
qed

lemma sort_params_default:
  "sortBy filters = None \<or> sortBy filters = Some Relevance \<Longrightarrow> sort_params filters = []"
  by (auto simp: sort_params_def)

lemma join_Cons: "join sep (x # xs) = x @ (if xs = [] then [] else sep @ join sep xs)"
  by (cases xs) simp_all

lemma join_snoc: "join sep (xs @ [x]) = (if xs = [] then x else join sep xs @ sep @ x)"
  by (induction sep xs rule: join.induct) simp_all

lemma params_toString_Cons:
  "params_toString ((n, v) # ps) =
     urlencode n @ ''='' @ urlencode v @ (if ps = [] then [] else ''&'' @ params_toString ps)"
  by (simp add: params_toString_def join_Cons)

lemma params_toString_snoc:
  "params_toString (ps @ [(n, v)]) =
     (if ps = [] then [] else params_toString ps @ ''&'') @ urlencode n @ ''='' @ urlencode v"
  using join_snoc [of "''&''" "map (\<lambda>(name, v). urlencode name @ ''='' @ urlencode v) ps"
      "urlencode n @ ''='' @ urlencode v"]
  by (simp add: params_toString_def)

lemma params_toString_Nil_iff: "params_toString ps = [] \<longleftrightarrow> ps = []"
proof (cases ps)
  case Nil
  then show ?thesis by (simp add: params_toString_def)
next
  case (Cons p qs)
  then show ?thesis by (cases p) (simp add: params_toString_Cons)
qed

lemma buildSearchUrl_query:
  "buildSearchUrl filters =
     search_path filters @
     (if search_params filters = [] then [] else ''?'' @ params_toString (search_params filters))"
  by (simp add: buildSearchUrl_def Let_def params_toString_Nil_iff)

lemma urlencode_names:
  "urlencode ''keyword'' = ''keyword''" "urlencode ''type'' = ''type''"
  "urlencode ''min_price'' = ''min_price''" "urlencode ''max_price'' = ''max_price''"
  "urlencode ''sort'' = ''sort''" "urlencode ''time'' = ''time''" "urlencode ''price'' = ''price''"
  by code_simp+

lemma search_params_keyword:
  "\<lbrakk>keyword filters = Some k; k \<noteq> []\<rbrakk>
   \<Longrightarrow> search_params filters =
         (''keyword'', k) # type_params filters @ budget_params filters @ sort_params filters"
  by (simp add: search_params_def keyword_params_def tags_params_def truthy_def)

lemma search_params_tags:
  "\<lbrakk>\<not> truthy (keyword filters); tags filters = Some ts; ts \<noteq> []\<rbrakk>
   \<Longrightarrow> search_params filters =
         (''keyword'', join '' '' ts) # type_params filters @ budget_params filters @ sort_params filters"
  by (cases "keyword filters") (simp_all add: search_params_def keyword_params_def tags_params_def truthy_def)

lemma search_params_plain:
  "\<lbrakk>\<not> truthy (keyword filters); tags filters = None \<or> tags filters = Some []\<rbrakk>
   \<Longrightarrow> search_params filters = type_params filters @ budget_params filters @ sort_params filters"
  by (cases "keyword filters") (auto simp: search_params_def keyword_params_def tags_params_def truthy_def)

lemma prefix_keyword_Cons:
  "prefix (path @ ''?keyword='' @ urlencode k)
     (path @ ''?'' @ params_toString ((''keyword'', k) # ps))"
  by (simp add: params_toString_Cons urlencode_names)

lemma search_params_sortBy:
  "search_params filters = search_params (filters\<lparr>sortBy := None\<rparr>) @ sort_params filters"
  by (simp add: search_params_def keyword_params_def tags_params_def type_params_def
      budget_params_def sort_params_def)

lemma search_path_sortBy: "search_path (filters\<lparr>sortBy := s\<rparr>) = search_path filters"
  by (simp add: search_path_def)

lemma buildSearchUrl_sorted:
  assumes "sort_params filters = [(''sort'', v)]"
  shows "buildSearchUrl filters = buildSearchUrl (filters\<lparr>sortBy := None\<rparr>) @ ''?sort='' @ urlencode v \<or>
         buildSearchUrl filters = buildSearchUrl (filters\<lparr>sortBy := None\<rparr>) @ ''&sort='' @ urlencode v"
proof -
  let ?ps = "search_params (filters\<lparr>sortBy := None\<rparr>)"
  have "search_params filters = ?ps @ [(''sort'', v)]"
    using assms search_params_sortBy [of filters] by simp
  then show ?thesis
    by (cases "?ps = []")
      (simp_all add: buildSearchUrl_query [of filters]
        buildSearchUrl_query [of "filters\<lparr>sortBy := None\<rparr>"] search_path_sortBy
        params_toString_snoc params_toString_Cons urlencode_names)
qed

lemma buildSearchUrl_unsorted:
  assumes "sort_params filters = []"
  shows "buildSearchUrl filters = buildSearchUrl (filters\<lparr>sortBy := None\<rparr>)"
  using assms search_params_sortBy [of filters]
  by (simp add: buildSearchUrl_query [of filters]
      buildSearchUrl_query [of "filters\<lparr>sortBy := None\<rparr>"] search_path_sortBy)

lemma no_keyword_prefix:
  assumes "search_params filters = type_params filters @ budget_params filters @ sort_params filters"
  shows "\<not> prefix (search_path filters @ ''?keyword='') (buildSearchUrl filters)"
proof (cases "search_params filters")
  case Nil
  then show ?thesis
    by (simp add: buildSearchUrl_query)
next
  case (Cons p ps)
  obtain n v where p: "p = (n, v)"
    by (cases p)
  with Cons assms have "(n, v) \<in> set (type_params filters @ budget_params filters @ sort_params filters)"
    by (metis list.set_intros(1))
  then have "n = ''type'' \<or> n = ''min_price'' \<or> n = ''max_price'' \<or> n = ''sort''"
    by (auto dest: type_params_keys budget_params_keys sort_params_keys)
  then show ?thesis
    using Cons p
    by (auto simp: buildSearchUrl_query params_toString_Cons urlencode_names)
qed

text \<open>
  C8. \<open>buildSearchUrl\<close> is a function of the filters alone (the base URL and the category
  list are constants), so equal filters give equal URLs. The URL is the path, followed by
  \<^verbatim>\<open>?\<close> and the serialized parameters if there are any. A category outside the supported
  list is ignored: the URL is \<^verbatim>\<open>https://www.freelancer.in/jobs\<close> or continues from there with
  \<^verbatim>\<open>?\<close>, it is the URL of the same filters without a category, and nothing is thrown; a
  supported category is the next path segment. With a keyword, the URL continues after the
  path with \<^verbatim>\<open>?keyword=\<close> and the encoded keyword, and the tags play no part in it. Without
  a keyword, it continues with \<^verbatim>\<open>?keyword=\<close> and the encoded tags, joined by spaces, if
  there are tags, and does not continue with \<^verbatim>\<open>?keyword=\<close> if there are none. With \<open>sortBy\<close>
  \<open>relevance\<close> (or \<open>proposals\<close>) the URL is the one of the same filters without \<open>sortBy\<close>,
  which has no \<open>sort\<close> parameter; \<open>newest\<close> and \<open>budget\<close> append \<^verbatim>\<open>sort=time\<close> and
  \<^verbatim>\<open>sort=price\<close> to that URL.
\<close>

theorem buildSearchUrl_filters:
  "buildSearchUrl filters =
     search_path filters @
     (if search_params filters = [] then [] else ''?'' @ params_toString (search_params filters)) \<and>
   ((\<forall>c. category filters = Some c \<longrightarrow> c \<notin> set supportedCategories) \<longrightarrow>
      search_path filters = ''https://www.freelancer.in/jobs'' \<and>
      (buildSearchUrl filters = ''https://www.freelancer.in/jobs'' \<or>
       prefix ''https://www.freelancer.in/jobs?'' (buildSearchUrl filters)) \<and>
      buildSearchUrl filters = buildSearchUrl (filters\<lparr>category := None\<rparr>)) \<and>
   (category filters = Some c \<and> c \<noteq> [] \<and> c \<in> set supportedCategories \<longrightarrow>
      prefix (''https://www.freelancer.in/jobs/'' @ c) (buildSearchUrl filters)) \<and>
   (keyword filters = Some k \<and> k \<noteq> [] \<longrightarrow>
      map_of (search_params filters) ''keyword'' = Some k \<and>
      prefix (search_path filters @ ''?keyword='' @ urlencode k) (buildSearchUrl filters) \<and>
      buildSearchUrl filters = buildSearchUrl (filters\<lparr>tags := None\<rparr>)) \<and>
   (\<not> truthy (keyword filters) \<and> tags filters = Some ts \<and> ts \<noteq> [] \<longrightarrow>
      map_of (search_params filters) ''keyword'' = Some (join '' '' ts) \<and>
      prefix (search_path filters @ ''?keyword='' @ urlencode (join '' '' ts))
        (buildSearchUrl filters)) \<and>
   (\<not> truthy (keyword filters) \<and> (tags filters = None \<or> tags filters = Some []) \<longrightarrow>
      map_of (search_params filters) ''keyword'' = None \<and>
      \<not> prefix (search_path filters @ ''?keyword='') (buildSearchUrl filters)) \<and>
   (sortBy filters = None \<or> sortBy filters = Some Relevance \<or> sortBy filters = Some Proposals \<longrightarrow>
      ''sort'' \<notin> fst ` set (search_params filters) \<and>
      buildSearchUrl filters = buildSearchUrl (filters\<lparr>sortBy := None\<rparr>)) \<and>
   (sortBy filters = Some Newest \<longrightarrow>
      buildSearchUrl filters = buildSearchUrl (filters\<lparr>sortBy := None\<rparr>) @ ''?sort=time'' \<or>
      buildSearchUrl filters = buildSearchUrl (filters\<lparr>sortBy := None\<rparr>) @ ''&sort=time'') \<and>
   (sortBy filters = Some Budget \<longrightarrow>
      buildSearchUrl filters = buildSearchUrl (filters\<lparr>sortBy := None\<rparr>) @ ''?sort=price'' \<or>
      buildSearchUrl filters = buildSearchUrl (filters\<lparr>sortBy := None\<rparr>) @ ''&sort=price'')"
proof (intro conjI impI)
  show "buildSearchUrl filters =
     search_path filters @
     (if search_params filters = [] then [] else ''?'' @ params_toString (search_params filters))"
    by (rule buildSearchUrl_query)
next
  assume unsupported: "\<forall>c. category filters = Some c \<longrightarrow> c \<notin> set supportedCategories"
  then show path: "search_path filters = ''https://www.freelancer.in/jobs''"
    by (auto simp: search_path_def baseUrl_def split: option.splits)
  then show "buildSearchUrl filters = ''https://www.freelancer.in/jobs'' \<or>
       prefix ''https://www.freelancer.in/jobs?'' (buildSearchUrl filters)"
    by (simp add: buildSearchUrl_query)
  have "search_path (filters\<lparr>category := None\<rparr>) = ''https://www.freelancer.in/jobs''"
    by (simp add: search_path_def baseUrl_def)
  with path show "buildSearchUrl filters = buildSearchUrl (filters\<lparr>category := None\<rparr>)"
    by (simp add: buildSearchUrl_def search_params_category)
next
  assume "category filters = Some c \<and> c \<noteq> [] \<and> c \<in> set supportedCategories"
  then have "search_path filters = ''https://www.freelancer.in/jobs/'' @ c"
    by (simp add: search_path_def baseUrl_def)
  then show "prefix (''https://www.freelancer.in/jobs/'' @ c) (buildSearchUrl filters)"
    by (simp add: buildSearchUrl_query del: append.simps)
next
  assume k: "keyword filters = Some k \<and> k \<noteq> []"
  then have given: "truthy (keyword filters)"
    by (simp add: truthy_def)
  from k show "map_of (search_params filters) ''keyword'' = Some k"
    unfolding map_of_keyword
    by (simp add: keyword_params_def tags_params_def truthy_def)
  from k have "search_params filters =
      (''keyword'', k) # type_params filters @ budget_params filters @ sort_params filters"
    by (simp add: search_params_keyword)
  then show "prefix (search_path filters @ ''?keyword='' @ urlencode k) (buildSearchUrl filters)"
    using prefix_keyword_Cons [of "search_path filters" k]
    by (simp add: buildSearchUrl_query)
  from given show "buildSearchUrl filters = buildSearchUrl (filters\<lparr>tags := None\<rparr>)"
    by (simp add: buildSearchUrl_def search_params_tags_unused search_path_tags)
next
  assume t: "\<not> truthy (keyword filters) \<and> tags filters = Some ts \<and> ts \<noteq> []"
  then have params: "search_params filters =
      (''keyword'', join '' '' ts) # type_params filters @ budget_params filters @ sort_params filters"
    by (simp add: search_params_tags)
  from t show "map_of (search_params filters) ''keyword'' = Some (join '' '' ts)"
    by (simp add: params)
  from params show "prefix (search_path filters @ ''?keyword='' @ urlencode (join '' '' ts))
      (buildSearchUrl filters)"
    using prefix_keyword_Cons [of "search_path filters" "join '' '' ts"]
    by (simp add: buildSearchUrl_query)
next
  assume "\<not> truthy (keyword filters) \<and> (tags filters = None \<or> tags filters = Some [])"
  then have params: "search_params filters =
      type_params filters @ budget_params filters @ sort_params filters"
    by (simp add: search_params_plain)
  have "''keyword'' \<notin> fst ` set (type_params filters @ budget_params filters @ sort_params filters)"
    by (auto dest: type_params_keys budget_params_keys sort_params_keys)
  then show "map_of (search_params filters) ''keyword'' = None"
    by (simp add: params map_of_eq_None_iff del: set_append map_of_append)
  from params show "\<not> prefix (search_path filters @ ''?keyword='') (buildSearchUrl filters)"
    by (rule no_keyword_prefix)
next
  assume "sortBy filters = None \<or> sortBy filters = Some Relevance \<or> sortBy filters = Some Proposals"
  then have none: "sort_params filters = []"
    by (auto simp: sort_params_def)
  then show "''sort'' \<notin> fst ` set (search_params filters)"
    by (auto simp: search_params_def
        dest: type_params_keys budget_params_keys keyword_params_keys tags_params_keys)
  from none show "buildSearchUrl filters = buildSearchUrl (filters\<lparr>sortBy := None\<rparr>)"
    by (rule buildSearchUrl_unsorted)
next
  assume "sortBy filters = Some Newest"
  then have "sort_params filters = [(''sort'', ''time'')]"
    by (simp add: sort_params_def)
  from buildSearchUrl_sorted [OF this]
  show "buildSearchUrl filters = buildSearchUrl (filters\<lparr>sortBy := None\<rparr>) @ ''?sort=time'' \<or>
      buildSearchUrl filters = buildSearchUrl (filters\<lparr>sortBy := None\<rparr>) @ ''&sort=time''"
    by (simp add: urlencode_names)
next
  assume "sortBy filters = Some Budget"
  then have "sort_params filters = [(''sort'', ''price'')]"
    by (simp add: sort_params_def)
  from buildSearchUrl_sorted [OF this]
  show "buildSearchUrl filters = buildSearchUrl (filters\<lparr>sortBy := None\<rparr>) @ ''?sort=price'' \<or>
      buildSearchUrl filters = buildSearchUrl (filters\<lparr>sortBy := None\<rparr>) @ ''&sort=price''"
    by (simp add: urlencode_names)
qed

lemma buildSearchUrl_samples:
  "buildSearchUrl sample_filters =
     ''https://www.freelancer.in/jobs?keyword=logo+design&type=fixed&min_price=50''"
  "buildSearchUrl (sample_filters\<lparr>sortBy := None\<rparr>) =
     ''https://www.freelancer.in/jobs?keyword=logo+design&type=fixed&min_price=50''"
  "buildSearchUrl tagged_filters =
     ''https://www.freelancer.in/jobs/design?keyword=figma+svg&type=fixed&min_price=50&sort=time''"
  "buildSearchUrl (tagged_filters\<lparr>sortBy := None\<rparr>) =
     ''https://www.freelancer.in/jobs/design?keyword=figma+svg&type=fixed&min_price=50''"
  "buildSearchUrl (no_filters\<lparr>sortBy := Some Budget\<rparr>) = ''https://www.freelancer.in/jobs?sort=price''"
  "buildSearchUrl no_filters = ''https://www.freelancer.in/jobs''"
  by code_simp+

theorem buildSearchUrl_filters_witness:
  "category sample_filters = Some ''gardening'' \<and> ''gardening'' \<notin> set supportedCategories \<and>
   keyword sample_filters = Some ''logo design'' \<and> sortBy sample_filters = Some Relevance \<and>
   buildSearchUrl sample_filters =
     ''https://www.freelancer.in/jobs?keyword=logo+design&type=fixed&min_price=50'' \<and>
   buildSearchUrl sample_filters = buildSearchUrl (sample_filters\<lparr>category := None\<rparr>) \<and>
   buildSearchUrl sample_filters = buildSearchUrl (sample_filters\<lparr>tags := None\<rparr>) \<and>
   buildSearchUrl sample_filters = buildSearchUrl (sample_filters\<lparr>sortBy := None\<rparr>) \<and>
   prefix (search_path sample_filters @ ''?keyword='' @ urlencode ''logo design'')
     (buildSearchUrl sample_filters) \<and>
   category tagged_filters = Some ''design'' \<and> ''design'' \<in> set supportedCategories \<and>
   \<not> truthy (keyword tagged_filters) \<and> tags tagged_filters = Some [''figma'', ''svg''] \<and>
   sortBy tagged_filters = Some Newest \<and>
   buildSearchUrl tagged_filters =
     ''https://www.freelancer.in/jobs/design?keyword=figma+svg&type=fixed&min_price=50&sort=time'' \<and>
   prefix (''https://www.freelancer.in/jobs/'' @ ''design'') (buildSearchUrl tagged_filters) \<and>
   prefix (search_path tagged_filters @ ''?keyword='' @ urlencode (join '' '' [''figma'', ''svg'']))
     (buildSearchUrl tagged_filters) \<and>
   buildSearchUrl tagged_filters = buildSearchUrl (tagged_filters\<lparr>sortBy := None\<rparr>) @ ''&sort=time'' \<and>
   \<not> truthy (keyword no_filters) \<and> tags no_filters = None \<and>
   \<not> prefix (search_path no_filters @ ''?keyword='') (buildSearchUrl no_filters) \<and>
   sortBy (no_filters\<lparr>sortBy := Some Budget\<rparr>) = Some Budget \<and>
   buildSearchUrl (no_filters\<lparr>sortBy := Some Budget\<rparr>) = buildSearchUrl no_filters @ ''?sort=price''"
proof -
  have a: "\<forall>c. category sample_filters = Some c \<longrightarrow> c \<notin> set supportedCategories"
    "category sample_filters = Some ''gardening''" "''gardening'' \<notin> set supportedCategories"
    "keyword sample_filters = Some ''logo design'' \<and> ''logo design'' \<noteq> []"
    "sortBy sample_filters = Some Relevance"
    by (simp_all add: sample_filters_def supportedCategories_def)
  have b: "category tagged_filters = Some ''design'' \<and> ''design'' \<noteq> [] \<and>
      ''design'' \<in> set supportedCategories"
    "\<not> truthy (keyword tagged_filters) \<and> tags tagged_filters = Some [''figma'', ''svg''] \<and>
      [''figma'', ''svg''] \<noteq> []"
    "sortBy tagged_filters = Some Newest"
    by (simp_all add: tagged_filters_def sample_filters_def supportedCategories_def truthy_def)
  have c: "\<not> truthy (keyword no_filters) \<and> (tags no_filters = None \<or> tags no_filters = Some [])"
    "sortBy (no_filters\<lparr>sortBy := Some Budget\<rparr>) = Some Budget"
    by (simp_all add: no_filters_def truthy_def)
  note sample = buildSearchUrl_filters [where filters = sample_filters and k = "''logo design''"
      and c = "''gardening''" and ts = "[]"]
  note tagged = buildSearchUrl_filters [where filters = tagged_filters and k = "''logo design''"
      and c = "''design''" and ts = "[''figma'', ''svg'']"]
  note plain = buildSearchUrl_filters [where filters = no_filters and k = "''logo design''"
      and c = "''design''" and ts = "[]"]
  note priced = buildSearchUrl_filters [where filters = "no_filters\<lparr>sortBy := Some Budget\<rparr>"
      and k = "''logo design''" and c = "''design''" and ts = "[]"]
  have s1: "buildSearchUrl sample_filters = buildSearchUrl (sample_filters\<lparr>category := None\<rparr>)"
    "buildSearchUrl sample_filters = buildSearchUrl (sample_filters\<lparr>tags := None\<rparr>)"
    "buildSearchUrl sample_filters = buildSearchUrl (sample_filters\<lparr>sortBy := None\<rparr>)"
    "prefix (search_path sample_filters @ ''?keyword='' @ urlencode ''logo design'')
       (buildSearchUrl sample_filters)"
    using a sample by blast+
  have s2: "prefix (''https://www.freelancer.in/jobs/'' @ ''design'') (buildSearchUrl tagged_filters)"
    "prefix (search_path tagged_filters @ ''?keyword='' @ urlencode (join '' '' [''figma'', ''svg'']))
       (buildSearchUrl tagged_filters)"
    using b tagged by blast+
  have "buildSearchUrl tagged_filters = buildSearchUrl (tagged_filters\<lparr>sortBy := None\<rparr>) @ ''?sort=time'' \<or>
      buildSearchUrl tagged_filters = buildSearchUrl (tagged_filters\<lparr>sortBy := None\<rparr>) @ ''&sort=time''"
    using b tagged by blast
  then have s3: "buildSearchUrl tagged_filters =
      buildSearchUrl (tagged_filters\<lparr>sortBy := None\<rparr>) @ ''&sort=time''"
    by (simp add: buildSearchUrl_samples)
  have s4: "\<not> prefix (search_path no_filters @ ''?keyword='') (buildSearchUrl no_filters)"
    using c plain by blast
  have "buildSearchUrl (no_filters\<lparr>sortBy := Some Budget\<rparr>) =
        buildSearchUrl (no_filters\<lparr>sortBy := Some Budget, sortBy := None\<rparr>) @ ''?sort=price'' \<or>
      buildSearchUrl (no_filters\<lparr>sortBy := Some Budget\<rparr>) =
        buildSearchUrl (no_filters\<lparr>sortBy := Some Budget, sortBy := None\<rparr>) @ ''&sort=price''"
    using c priced by blast
  then have s5: "buildSearchUrl (no_filters\<lparr>sortBy := Some Budget\<rparr>) =
      buildSearchUrl no_filters @ ''?sort=price''"
    by (simp add: buildSearchUrl_samples)
  have tags_none: "tags no_filters = None"
    by (simp add: no_filters_def)
  show ?thesis
    using a(2-5) b c tags_none s1 s2 s3 s4 s5 buildSearchUrl_samples(1,3)
    by blast
qed

section \<open>Properties of the orchestrator\<close>

lemma scrapeFromPlatform_entry:
  "(case fst (scrapeFromPlatform adapters now platformId filters log) of
      Inr result \<Rightarrow> result
    | Inl error \<Rightarrow>
        \<lparr>jobs = [], totalFound = 0, platform = platformId, searchQuery = ''N/A'',
         timestamp = now, success = False, errors = Some [errorMessage error]\<rparr>) =
   platform_outcome adapters now filters platformId"
  by (simp add: scrapeFromPlatform_def platform_outcome_def split: option.splits sum.splits)

lemma platforms_loop_results:
  "fst (platforms_loop adapters delayMs now platforms filters todo results log) =
     results @ map (platform_outcome adapters now filters) todo"
proof (induction todo arbitrary: results log)
  case Nil
  show ?case by simp
next
  case (Cons platformId rest)
  obtain r log1 where step: "scrapeFromPlatform adapters now platformId filters log = (r, log1)"
    by (cases "scrapeFromPlatform adapters now platformId filters log")
  show ?case
  proof (cases r)
    case (Inl error)
    with step scrapeFromPlatform_entry [where adapters = adapters and now = now and platformId = platformId
        and filters = filters and log = log]
    show ?thesis
      by (simp add: Cons.IH)
  next
    case (Inr result)
    with step scrapeFromPlatform_entry [where adapters = adapters and now = now and platformId = platformId
        and filters = filters and log = log]
    show ?thesis
      by (simp add: Cons.IH)
  qed
qed

text \<open>
  C2. \<open>scrapeFromMultiplePlatforms\<close> returns a list and cannot throw: every \<^verbatim>\<open>throw\<close> below
  it is inside a \<^verbatim>\<open>try\<close>. The list holds one result per requested platform, in the requested
  order, and the entry of a platform is a function of that platform alone, whatever the
  other platforms do. When the adapter's \<open>scrape\<close> rejects, the entry is a failed result for
  that platform whose \<open>errors\<close> hold the message of what was thrown; when it returns a
  result, the entry is that result.
\<close>

theorem fault_isolation:
  "fst (scrapeFromMultiplePlatforms adapters delayMs now platforms filters log) =
     map (platform_outcome adapters now filters) platforms \<and>
   length (fst (scrapeFromMultiplePlatforms adapters delayMs now platforms filters log)) =
     length platforms \<and>
   (adapters platformId = Some adapter \<and> adapter_scrape adapter filters = Inl error \<longrightarrow>
      platform (platform_outcome adapters now filters platformId) = platformId \<and>
      \<not> success (platform_outcome adapters now filters platformId) \<and>
      errors (platform_outcome adapters now filters platformId) = Some [errorMessage error]) \<and>
   (adapters platformId = Some adapter \<and> adapter_scrape adapter filters = Inr result \<longrightarrow>
      platform_outcome adapters now filters platformId = result)"
proof -
  have "fst (scrapeFromMultiplePlatforms adapters delayMs now platforms filters log) =
      map (platform_outcome adapters now filters) platforms"
    using platforms_loop_results [of adapters delayMs now platforms filters platforms "[]" log]
    by (simp add: scrapeFromMultiplePlatforms_def case_prod_beta)
  then show ?thesis
    by (simp add: platform_outcome_def)
qed

theorem fault_isolation_witness:
  "sample_adapters ''alpha'' =
     Some \<lparr>adapter_scrape = (\<lambda>filters. Inl (Error ''browser crashed'')),
           adapter_buildSearchUrl = Some buildSearchUrl\<rparr> \<and>
   sample_adapters ''beta'' =
     Some \<lparr>adapter_scrape = (\<lambda>filters. Inr beta_result),
           adapter_buildSearchUrl = Some buildSearchUrl\<rparr> \<and>
   fst (scrapeFromMultiplePlatforms sample_adapters 2000 9 [''alpha'', ''beta'', ''gamma'']
          no_filters []) =
     [\<lparr>jobs = [], totalFound = 0, platform = ''alpha'',
       searchQuery = ''https://www.freelancer.in/jobs'', timestamp = 9, success = False,
       errors = Some [''browser crashed'']\<rparr>,
      beta_result,
      \<lparr>jobs = [], totalFound = 0, platform = ''gamma'', searchQuery = ''N/A'', timestamp = 9,
       success = False,
       errors = Some [''Adapter for platform '' @ [dquote] @ ''gamma'' @ [dquote] @
                      '' is not available'']\<rparr>] \<and>
   \<not> success (platform_outcome sample_adapters 9 no_filters ''alpha'') \<and>
   errors (platform_outcome sample_adapters 9 no_filters ''alpha'') = Some [''browser crashed''] \<and>
   platform_outcome sample_adapters 9 no_filters ''beta'' = beta_result"
proof -
  have a: "sample_adapters ''alpha'' =
      Some \<lparr>adapter_scrape = (\<lambda>filters. Inl (Error ''browser crashed'')),
            adapter_buildSearchUrl = Some buildSearchUrl\<rparr>"
    by (simp add: sample_adapters_def)
  have b: "sample_adapters ''beta'' =
      Some \<lparr>adapter_scrape = (\<lambda>filters. Inr beta_result),
            adapter_buildSearchUrl = Some buildSearchUrl\<rparr>"
    by (simp add: sample_adapters_def)
  have c: "sample_adapters ''gamma'' = None"
    by (simp add: sample_adapters_def)
  have url: "buildSearchUrl no_filters = ''https://www.freelancer.in/jobs''"
    by code_simp
  note alpha = fault_isolation [where adapters = sample_adapters and delayMs = 2000 and now = 9
      and platforms = "[''alpha'', ''beta'', ''gamma'']" and filters = no_filters and log = "[]"
      and platformId = "''alpha''" and error = "Error ''browser crashed''"
      and adapter = "\<lparr>adapter_scrape = (\<lambda>filters. Inl (Error ''browser crashed'')),
            adapter_buildSearchUrl = Some buildSearchUrl\<rparr>"]
  note beta = fault_isolation [where adapters = sample_adapters and delayMs = 2000 and now = 9
      and platforms = "[''alpha'', ''beta'', ''gamma'']" and filters = no_filters and log = "[]"
      and platformId = "''beta''" and result = beta_result
      and adapter = "\<lparr>adapter_scrape = (\<lambda>filters. Inr beta_result),
            adapter_buildSearchUrl = Some buildSearchUrl\<rparr>"]
  have results: "fst (scrapeFromMultiplePlatforms sample_adapters 2000 9
        [''alpha'', ''beta'', ''gamma''] no_filters []) =
     [\<lparr>jobs = [], totalFound = 0, platform = ''alpha'',
       searchQuery = ''https://www.freelancer.in/jobs'', timestamp = 9, success = False,
       errors = Some [''browser crashed'']\<rparr>,
      beta_result,
      \<lparr>jobs = [], totalFound = 0, platform = ''gamma'', searchQuery = ''N/A'', timestamp = 9,
       success = False,
       errors = Some [''Adapter for platform '' @ [dquote] @ ''gamma'' @ [dquote] @
                      '' is not available'']\<rparr>]"
    using a b c url alpha by (simp add: platform_outcome_def)
  have failed: "\<not> success (platform_outcome sample_adapters 9 no_filters ''alpha'') \<and>
      errors (platform_outcome sample_adapters 9 no_filters ''alpha'') = Some [''browser crashed'']"
    using a alpha by simp
  have passed: "platform_outcome sample_adapters 9 no_filters ''beta'' = beta_result"
    using b beta by simp
  show ?thesis
    using a b results failed passed by blast
qed

section \<open>Properties of the extraction\<close>

lemma set_add_distinct: "distinct seen \<Longrightarrow> distinct (set_add seen x)"
  by (simp add: set_add_def)

lemma set_set_add: "set (set_add seen x) = insert x (set seen)"
  by (auto simp: set_add_def)

lemma foldl_set_add:
  "distinct seen \<Longrightarrow> distinct (foldl set_add seen xs) \<and> set (foldl set_add seen xs) = set seen \<union> set xs"
  by (induction xs arbitrary: seen) (simp_all add: set_add_distinct set_set_add)

lemma distinct_unique: "distinct (unique xs)"
  using foldl_set_add [of "[]" xs] by (simp add: unique_def)

lemma set_unique: "set (unique xs) = set xs"
  using foldl_set_add [of "[]" xs] by (simp add: unique_def)

lemma push_matches_eq: "push_matches text found pattern = found @ map trim (match_all text pattern)"
  by (simp add: push_matches_def split: list.splits)

lemma foldl_push_matches:
  "foldl (push_matches text) found patterns =
     found @ concat (map (\<lambda>pattern. map trim (match_all text pattern)) patterns)"
  by (induction patterns arbitrary: found) (simp_all add: push_matches_eq)

lemma extractJobFromElement_fields:
  assumes "extractJobFromElement el = Some job"
  shows "\<exists>content. textContent el = Inr content \<and>
           JobData.budget job = or_else (fst (extract_budget (or_empty content))) [] \<and>
           JobData.jobType job = or_else (snd (snd (extract_budget (or_empty content)))) ''Not specified'' \<and>
           JobData.clientInfo job =
             or_else (client_loop (or_empty content) clientPatterns) ''Client information not available'' \<and>
           JobData.skills job = extractSkillsFromText (or_empty content) \<and>
           JobData.platform job = ''freelancer''"
  using assms
  by (auto simp: extractJobFromElement_def ok_def Let_def
      split: Option.bind_splits sum.splits prod.splits)

lemma title_loop_leaf: "title_loop (leaf text) selectors t = Some t"
  by (induction selectors) (simp_all add: leaf_def)

lemma description_loop_leaf: "description_loop (leaf text) selectors = Some ''No description available''"
  by (induction selectors) (simp_all add: leaf_def)

lemma extractJobFromElement_leaf: "extractJobFromElement (leaf text) = Some (leaf_job text)"
  by (simp add: extractJobFromElement_def title_loop_leaf description_loop_leaf leaf_job_def
      extract_url_def ok_def or_empty_def case_prod_beta)
    (simp add: leaf_def or_empty_def or_else_def)

text \<open>Every listing that \<open>extractJobs\<close> returns was made by \<open>extractJobFromElement\<close>.\<close>

lemma extract_each_made:
  "job \<in> set (extract_each elements) \<Longrightarrow> \<exists>el. extractJobFromElement el = Some job"
  by (auto simp: extract_each_def split: option.splits)

lemma first_selector_made:
  "\<lbrakk>first_selector doc selectors = Inr found; job \<in> set found\<rbrakk>
   \<Longrightarrow> \<exists>el. extractJobFromElement el = Some job"
  by (induction selectors) (auto split: sum.splits if_splits dest: extract_each_made)

lemma generic_loop_made:
  "\<lbrakk>generic_loop elements = Inr found; job \<in> set found\<rbrakk>
   \<Longrightarrow> \<exists>el. extractJobFromElement el = Some job"
proof (induction elements arbitrary: found)
  case Nil
  then show ?case by simp
next
  case (Cons el rest)
  then show ?case
    by (auto split: sum.splits option.splits if_splits dest: extract_each_made)
qed

lemma discovered_made:
  assumes "discovered doc = Inr found" and "job \<in> set found"
  shows "\<exists>el. extractJobFromElement el = Some job"
proof -
  consider (modern) "extractJobsWithModernSelectors doc = Inr found"
    | (legacy) "extractJobsWithLegacySelectors doc = Inr found"
    | (generic) "extractJobsGeneric doc = Inr found"
    using assms(1) by (auto simp: discovered_def split: sum.splits if_splits)
  then show ?thesis
  proof cases
    case modern
    then show ?thesis
      unfolding extractJobsWithModernSelectors_def using assms(2) by (rule first_selector_made)
  next
    case legacy
    then show ?thesis
      unfolding extractJobsWithLegacySelectors_def using assms(2) by (rule first_selector_made)
  next
    case generic
    then obtain allElements where "generic_loop allElements = Inr found"
      by (auto simp: extractJobsGeneric_def split: sum.splits)
    then show ?thesis
      using assms(2) by (rule generic_loop_made)
  qed
qed

lemma set_slice0: "set (slice0 xs n) \<subseteq> set xs"
  by (simp add: slice0_def set_take_subset)

lemma extractJobs_made:
  "\<lbrakk>extractJobs config page = Inr found; job \<in> set found\<rbrakk>
   \<Longrightarrow> \<exists>el. extractJobFromElement el = Some job"
  using set_slice0
  by (fastforce simp: extractJobs_def split: option.splits sum.splits dest: discovered_made)

lemma stamp_freelancer:
  "extractJobFromElement el = Some job \<Longrightarrow> job\<lparr>JobData.platform := ''freelancer''\<rparr> = job"
  by (auto dest!: extractJobFromElement_fields)


lemma scrape_jobs:
  "(\<not> success (fst (scrape this startTime filters s)) \<and>
      jobs (fst (scrape this startTime filters s)) = []) \<or>
   (\<exists>s2 s3 found. m_extractJobs this s2 = (Inr found, s3) \<and>
      jobs (fst (scrape this startTime filters s)) =
        map (\<lambda>job. job\<lparr>JobData.platform := platformName this\<rparr>) found)"
  by (auto simp: scrape_def scrape_failed_def split: prod.splits option.splits sum.splits)

lemma scrape_success:
  "\<lbrakk>m_initialize this s = (None, s1); m_navigateToJobsPage this filters s1 = (None, s2);
    m_extractJobs this s2 = (Inr found, s3)\<rbrakk>
   \<Longrightarrow> jobs (fst (scrape this startTime filters s)) =
         map (\<lambda>job. job\<lparr>JobData.platform := platformName this\<rparr>) found"
  by (simp add: scrape_def)

lemma freelancer_jobs_made:
  assumes "job \<in> set (jobs (fst (scrape (FreelancerAdapter b config) startTime filters page)))"
  shows "\<exists>el. extractJobFromElement el = Some job"
proof -
  from scrape_jobs [of "FreelancerAdapter b config" startTime filters page] assms
  obtain s2 found where found: "extractJobs config s2 = Inr found"
    and stamped: "jobs (fst (scrape (FreelancerAdapter b config) startTime filters page)) =
      map (\<lambda>job. job\<lparr>JobData.platform := ''freelancer''\<rparr>) found"
    by (auto simp: FreelancerAdapter_def)
  from assms stamped obtain job0 where job0: "job0 \<in> set found"
    and job: "job = job0\<lparr>JobData.platform := ''freelancer''\<rparr>"
    by auto
  from extractJobs_made [OF found job0] obtain el where "extractJobFromElement el = Some job0"
    by blast
  with job stamp_freelancer [of el job0] show ?thesis
    by auto
qed

subsection \<open>The sample page\<close>

lemma extract_each_sample:
  "extract_each sample_elements = [leaf_job budget_text, leaf_job ''Go, go'', leaf_job ''PHP'']"
  by (simp add: extract_each_def sample_elements_def extractJobFromElement_leaf)

lemma discovered_sample:
  "discovered sample_document = Inr [leaf_job budget_text, leaf_job ''Go, go'', leaf_job ''PHP'']"
  by (simp add: discovered_def extractJobsWithModernSelectors_def sample_document_def
      extract_each_sample)
    (simp add: sample_elements_def)

lemma navigate_sample:
  "navigateToJobsPage sample_browser filters (Some blank_document) = (None, Some sample_document)"
  by (simp add: navigateToJobsPage_def sample_browser_def jobSelectors_def)
    (simp add: sample_document_def)

lemma leaf_job_platform: "(leaf_job text)\<lparr>JobData.platform := ''freelancer''\<rparr> = leaf_job text"
  by (simp add: leaf_job_def)

lemma scrape_sample:
  "fst (scrape (FreelancerAdapter sample_browser sample_config) 5 no_filters None) =
     \<lparr>jobs = [leaf_job budget_text, leaf_job ''Go, go''], totalFound = 2,
      platform = ''freelancer'', searchQuery = ''no filters'', timestamp = 5, success = True,
      errors = None\<rparr>"
proof -
  have init: "initialize sample_browser None = (None, Some blank_document)"
    by (simp add: initialize_def sample_browser_def)
  have query: "buildSearchQuery no_filters = ''no filters''"
    by (simp add: buildSearchQuery_def no_filters_def)
  have cut: "extractJobs sample_config (Some sample_document) =
      Inr [leaf_job budget_text, leaf_job ''Go, go'']"
    by (simp add: extractJobs_def discovered_sample slice0_def sample_config_def)
  show ?thesis
    by (simp add: scrape_def FreelancerAdapter_def init navigate_sample cut query leaf_job_platform)
qed

lemma skills_sample: "extractSkillsFromText ''Go, go'' = [''Go'', ''go'']"
  by code_simp

text \<open>
  The matcher on small inputs: a greedy star gives way to what follows it, a later
  alternative is taken when the first one leads nowhere, an empty match moves the search on
  by one character, and a word boundary needs a word character on exactly one side.
\<close>

lemma match_all_examples:
  "match_all ''3 hours ago'' (hd timePatterns) = [''3 hours ago'']"
  "match_all ''ab'' (Star (lit ''x'')) = [[], [], []]"
  "match_all ''a1,2b'' amount = [''1,2'']"
  "match_all ''C++ C++x'' (whole_words [lit ''C++'']) = [''C++'']"
  "replace_all ''ab'' (Star (lit ''x'')) ''-'' = ''-a-b-''"
  by code_simp+

lemma cleanText_example: "cleanText ([CHR '' '', CHR ''a'', newline, newline, CHR ''b'', CHR 0x09]) = ''a b''"
  by code_simp

lemma budget_sample: "extract_budget budget_text = (''$500 - $800, '', [], ''Fixed Price'')"
  by code_simp

lemma client_sample: "client_loop budget_text clientPatterns = ''3 review''"
  by code_simp


subsection \<open>The cut to maxJobs\<close>

text \<open>
  C4. \<open>maxJobs\<close> is the cap on the returned listings, a count: \<open>maxJobs \<ge> 0\<close>. For every page,
  a list that \<open>extractJobs\<close> returns has at most \<open>maxJobs\<close> entries and is exactly the first
  \<open>maxJobs\<close> discovered listings in discovery order (all of them when no more than
  \<open>maxJobs\<close> were discovered); and whenever the three strategies discover listings without
  a rejected call, \<open>extractJobs\<close> returns that list.
\<close>

theorem extractJobs_cap:
  "0 \<le> maxJobs config \<longrightarrow>
     (extractJobs config page = Inr result \<longrightarrow>
        int (length result) \<le> maxJobs config \<and>
        (\<exists>doc found. page = Some doc \<and> discovered doc = Inr found \<and>
           result = take (nat (maxJobs config)) found)) \<and>
     (discovered doc = Inr found \<longrightarrow>
        extractJobs config (Some doc) = Inr (take (nat (maxJobs config)) found))"
proof (intro conjI impI)
  assume cap: "0 \<le> maxJobs config"
  then have cut: "slice0 xs (maxJobs config) = take (nat (maxJobs config)) xs" for xs :: "JobData list"
    by (simp add: slice0_def)
  {
    assume "extractJobs config page = Inr result"
    then obtain doc found where "page = Some doc" and "discovered doc = Inr found"
      and "result = slice0 found (maxJobs config)"
      by (auto simp: extractJobs_def split: option.splits sum.splits)
    with cut show "\<exists>doc found. page = Some doc \<and> discovered doc = Inr found \<and>
        result = take (nat (maxJobs config)) found"
      by auto
    with cap show "int (length result) \<le> maxJobs config"
      by auto
  }
  assume "discovered doc = Inr found"
  with cut show "extractJobs config (Some doc) = Inr (take (nat (maxJobs config)) found)"
    by (simp add: extractJobs_def)
qed

theorem extractJobs_cap_witness:
  "0 \<le> maxJobs sample_config \<and>
   discovered sample_document = Inr [leaf_job budget_text, leaf_job ''Go, go'', leaf_job ''PHP''] \<and>
   extractJobs sample_config (Some sample_document) =
     Inr [leaf_job budget_text, leaf_job ''Go, go''] \<and>
   int (length [leaf_job budget_text, leaf_job ''Go, go'']) \<le> maxJobs sample_config"
proof -
  have cap: "maxJobs sample_config = 2"
    by (simp add: sample_config_def)
  note at_two = extractJobs_cap [where config = sample_config and doc = sample_document
      and page = "Some sample_document"
      and result = "[leaf_job budget_text, leaf_job ''Go, go'']"
      and found = "[leaf_job budget_text, leaf_job ''Go, go'', leaf_job ''PHP'']"]
  have returned: "extractJobs sample_config (Some sample_document) =
      Inr [leaf_job budget_text, leaf_job ''Go, go'']"
    using at_two discovered_sample cap by simp
  with at_two cap have "int (length [leaf_job budget_text, leaf_job ''Go, go'']) \<le> maxJobs sample_config"
    by simp
  with returned discovered_sample cap show ?thesis
    by simp
qed

subsection \<open>The platform of a listing\<close>

text \<open>
  C5, as stated, fails in its first part: the field extractor does set the platform field.
  Every listing that \<open>extractJobFromElement\<close> returns has \<open>platform = "freelancer"\<close>, written in
  the object literal of its \<^verbatim>\<open>return\<close>.
\<close>

theorem extractor_sets_platform_counterexample:
  "map_option JobData.platform (extractJobFromElement (leaf budget_text)) = Some ''freelancer''"
  by (simp add: extractJobFromElement_leaf leaf_job_def)

text \<open>
  C5, amended. The field extractor sets the platform field itself, to the literal
  \<open>"freelancer"\<close>. When the three steps of \<open>scrape\<close> go through, the listings it returns are
  the extracted listings with the platform field overwritten by the adapter's name and no
  other field changed. For the Freelancer adapter the name is the same literal, so its
  \<open>scrape\<close> returns the extracted listings as they are.
\<close>

theorem platform_stamping:
  "(extractJobFromElement el = Some job \<longrightarrow> JobData.platform job = ''freelancer'') \<and>
   (m_initialize this s = (None, s1) \<and> m_navigateToJobsPage this filters s1 = (None, s2) \<and>
    m_extractJobs this s2 = (Inr found, s3) \<longrightarrow>
      jobs (fst (scrape this startTime filters s)) =
        map (\<lambda>job. job\<lparr>JobData.platform := platformName this\<rparr>) found) \<and>
   (initialize b page = (None, page1) \<and> navigateToJobsPage b filters page1 = (None, page2) \<and>
    extractJobs config page2 = Inr extracted \<longrightarrow>
      jobs (fst (scrape (FreelancerAdapter b config) startTime filters page)) = extracted)"
proof (intro conjI impI)
  assume "extractJobFromElement el = Some job"
  then show "JobData.platform job = ''freelancer''"
    by (auto dest!: extractJobFromElement_fields)
next
  assume "m_initialize this s = (None, s1) \<and> m_navigateToJobsPage this filters s1 = (None, s2) \<and>
    m_extractJobs this s2 = (Inr found, s3)"
  then show "jobs (fst (scrape this startTime filters s)) =
      map (\<lambda>job. job\<lparr>JobData.platform := platformName this\<rparr>) found"
    by (simp add: scrape_success)
next
  assume steps: "initialize b page = (None, page1) \<and>
    navigateToJobsPage b filters page1 = (None, page2) \<and> extractJobs config page2 = Inr extracted"
  then have "jobs (fst (scrape (FreelancerAdapter b config) startTime filters page)) =
      map (\<lambda>job. job\<lparr>JobData.platform := ''freelancer''\<rparr>) extracted"
    by (simp add: scrape_def FreelancerAdapter_def)
  moreover have "map (\<lambda>job. job\<lparr>JobData.platform := ''freelancer''\<rparr>) extracted = extracted"
  proof (rule map_idI)
    fix job
    assume "job \<in> set extracted"
    with steps extractJobs_made obtain el where "extractJobFromElement el = Some job"
      by blast
    then show "job\<lparr>JobData.platform := ''freelancer''\<rparr> = job"
      by (rule stamp_freelancer)
  qed
  ultimately show "jobs (fst (scrape (FreelancerAdapter b config) startTime filters page)) = extracted"
    by simp
qed

text \<open>An adapter with another name on the same methods, to see the stamp.\<close>

theorem platform_stamping_witness:
  "extractJobFromElement (leaf ''PHP'') = Some (leaf_job ''PHP'') \<and>
   JobData.platform (leaf_job ''PHP'') = ''freelancer'' \<and>
   jobs (fst (scrape ((FreelancerAdapter sample_browser sample_config)\<lparr>platformName := ''upwork''\<rparr>)
                5 no_filters None)) =
     [(leaf_job budget_text)\<lparr>JobData.platform := ''upwork''\<rparr>,
      (leaf_job ''Go, go'')\<lparr>JobData.platform := ''upwork''\<rparr>] \<and>
   jobs (fst (scrape (FreelancerAdapter sample_browser sample_config) 5 no_filters None)) =
     [leaf_job budget_text, leaf_job ''Go, go'']"
proof -
  have init: "initialize sample_browser None = (None, Some blank_document)"
    by (simp add: initialize_def sample_browser_def)
  have cut: "extractJobs sample_config (Some sample_document) =
      Inr [leaf_job budget_text, leaf_job ''Go, go'']"
    by (simp add: extractJobs_def discovered_sample slice0_def sample_config_def)
  note stamp = platform_stamping [where el = "leaf ''PHP''" and job = "leaf_job ''PHP''"
      and this = "(FreelancerAdapter sample_browser sample_config)\<lparr>platformName := ''upwork''\<rparr>"
      and s = None and ?s1.0 = "Some blank_document" and filters = no_filters
      and ?s2.0 = "Some sample_document" and ?s3.0 = "Some sample_document"
      and found = "[leaf_job budget_text, leaf_job ''Go, go'']" and startTime = 5
      and b = sample_browser and page = None and ?page1.0 = "Some blank_document"
      and ?page2.0 = "Some sample_document" and config = sample_config
      and extracted = "[leaf_job budget_text, leaf_job ''Go, go'']"]
  show ?thesis
    using stamp init cut navigate_sample [of no_filters] extractJobFromElement_leaf [of "''PHP''"]
    by (simp add: FreelancerAdapter_def)
qed

subsection \<open>The client-info scenario\<close>

text \<open>
  C6, as stated, fails in its last part. For the text of the scenario the first client
  pattern, \<^verbatim>\<open>/(\d+)\s*(?:review|reviews)/gi\<close>, matches \<open>3 review\<close> (the alternative \<open>review\<close> is
  tried first and succeeds), and the loop over the patterns stops at the first pattern with
  a match: \<open>clientInfo\<close> is \<open>3 review\<close>, which holds neither \<open>3 reviews\<close> nor
  \<open>Payment verified\<close>.
\<close>

theorem client_info_scenario_counterexample:
  "textContent (leaf budget_text) = Inr (Some budget_text) \<and>
   map_option JobData.clientInfo (extractJobFromElement (leaf budget_text)) = Some ''3 review'' \<and>
   \<not> includes_str ''3 review'' ''3 reviews'' \<and>
   \<not> includes_str ''3 review'' ''Payment verified''"
proof -
  have "\<not> includes_str ''3 review'' ''3 reviews''" and "\<not> includes_str ''3 review'' ''Payment verified''"
    by code_simp+
  then show ?thesis
    by (simp add: extractJobFromElement_leaf leaf_job_def client_sample or_else_def)
      (simp add: leaf_def)
qed

text \<open>
  C6, amended. For an element whose text content is
  \<open>Budget: $500 - $800, 3 reviews, Payment verified\<close>, whatever its children, a listing that
  the field extractor returns has a budget that starts with the amounts \<open>$500 - $800\<close>,
  \<open>jobType = "Fixed Price"\<close>, and a \<open>clientInfo\<close> that starts with the review count
  \<open>3 review\<close>, taken from the first client pattern that matches, and does not hold the
  verification phrase \<open>Payment verified\<close>.
\<close>

theorem client_info_scenario:
  "textContent el = Inr (Some budget_text) \<and> extractJobFromElement el = Some job \<longrightarrow>
     prefix ''$500 - $800'' (JobData.budget job) \<and>
     JobData.jobType job = ''Fixed Price'' \<and>
     prefix ''3 review'' (JobData.clientInfo job) \<and>
     \<not> includes_str (JobData.clientInfo job) ''Payment verified''"
proof
  assume h: "textContent el = Inr (Some budget_text) \<and> extractJobFromElement el = Some job"
  with extractJobFromElement_fields [of el job]
  have "JobData.budget job = or_else (fst (extract_budget budget_text)) []"
    and "JobData.jobType job = or_else (snd (snd (extract_budget budget_text))) ''Not specified''"
    and "JobData.clientInfo job =
      or_else (client_loop budget_text clientPatterns) ''Client information not available''"
    by (auto simp: or_empty_def)
  then have "JobData.budget job = ''$500 - $800, ''" and "JobData.jobType job = ''Fixed Price''"
    and "JobData.clientInfo job = ''3 review''"
    by (simp_all add: budget_sample client_sample or_else_def)
  moreover have "\<not> includes_str ''3 review'' ''Payment verified''"
    by code_simp
  ultimately show "prefix ''$500 - $800'' (JobData.budget job) \<and>
     JobData.jobType job = ''Fixed Price'' \<and>
     prefix ''3 review'' (JobData.clientInfo job) \<and>
     \<not> includes_str (JobData.clientInfo job) ''Payment verified''"
    by simp
qed

theorem client_info_scenario_witness:
  "textContent (leaf budget_text) = Inr (Some budget_text) \<and>
   extractJobFromElement (leaf budget_text) = Some (leaf_job budget_text) \<and>
   prefix ''$500 - $800'' (JobData.budget (leaf_job budget_text)) \<and>
   JobData.jobType (leaf_job budget_text) = ''Fixed Price'' \<and>
   prefix ''3 review'' (JobData.clientInfo (leaf_job budget_text)) \<and>
   \<not> includes_str (JobData.clientInfo (leaf_job budget_text)) ''Payment verified''"
proof -
  have content: "textContent (leaf budget_text) = Inr (Some budget_text)"
    by (simp add: leaf_def)
  show ?thesis
    using content extractJobFromElement_leaf [of budget_text]
      client_info_scenario [of "leaf budget_text" "leaf_job budget_text"]
    by blast
qed

subsection \<open>Skills\<close>

text \<open>
  C7. The skills that the field extractor finds in a text are exactly the trimmed matches
  of the keyword patterns, and no string occurs twice among them. So the skills of every
  listing that \<open>extractJobFromElement\<close> returns, and of every listing in the result of the
  Freelancer adapter's \<open>scrape\<close>, are free of duplicates. Two skills that differ in case
  only are two strings.
\<close>

theorem skills_deduplicated:
  "distinct (extractSkillsFromText elementText) \<and>
   set (extractSkillsFromText elementText) =
     (\<Union>pattern \<in> set skillPatterns. trim ` set (match_all elementText pattern)) \<and>
   (extractJobFromElement el = Some job \<longrightarrow> distinct (JobData.skills job)) \<and>
   (\<forall>job \<in> set (jobs (fst (scrape (FreelancerAdapter b config) startTime filters page))).
      distinct (JobData.skills job))"
proof (intro conjI impI ballI)
  show "distinct (extractSkillsFromText elementText)"
    by (simp add: extractSkillsFromText_def distinct_unique)
  show "set (extractSkillsFromText elementText) =
      (\<Union>pattern \<in> set skillPatterns. trim ` set (match_all elementText pattern))"
    by (simp add: extractSkillsFromText_def set_unique foldl_push_matches)
next
  assume "extractJobFromElement el = Some job"
  then show "distinct (JobData.skills job)"
    by (auto dest!: extractJobFromElement_fields simp: extractSkillsFromText_def distinct_unique)
next
  fix job
  assume "job \<in> set (jobs (fst (scrape (FreelancerAdapter b config) startTime filters page)))"
  then obtain el where "extractJobFromElement el = Some job"
    using freelancer_jobs_made by blast
  then show "distinct (JobData.skills job)"
    by (auto dest!: extractJobFromElement_fields simp: extractSkillsFromText_def distinct_unique)
qed

theorem skills_deduplicated_witness:
  "extractJobFromElement (leaf ''Go, go'') = Some (leaf_job ''Go, go'') \<and>
   JobData.skills (leaf_job ''Go, go'') = [''Go'', ''go''] \<and>
   leaf_job ''Go, go'' \<in>
     set (jobs (fst (scrape (FreelancerAdapter sample_browser sample_config) 5 no_filters None))) \<and>
   distinct (JobData.skills (leaf_job ''Go, go''))"
proof -
  have member: "leaf_job ''Go, go'' \<in>
      set (jobs (fst (scrape (FreelancerAdapter sample_browser sample_config) 5 no_filters None)))"
    by (simp add: scrape_sample)
  have found: "JobData.skills (leaf_job ''Go, go'') = [''Go'', ''go'']"
    by (simp add: leaf_job_def skills_sample)
  from member
    skills_deduplicated [where elementText = "''Go, go''" and el = "leaf ''Go, go''"
      and job = "leaf_job ''Go, go''" and b = sample_browser and config = sample_config
      and startTime = 5 and filters = no_filters and page = None]
  have "distinct (JobData.skills (leaf_job ''Go, go''))"
    by blast
  with member found extractJobFromElement_leaf [of "''Go, go''"] show ?thesis
    by simp
qed

section \<open>Properties of getStatistics\<close>

lemma map_fst_bump: "map fst (bump obj k) = set_add (map fst obj) k"
proof (cases "map_of obj k")
  case None
  then have "k \<notin> set (map fst obj)"
    by (simp add: map_of_eq_None_iff)
  with None show ?thesis
    by (simp add: bump_def set_add_def)
next
  case (Some n)
  then have "k \<in> set (map fst obj)"
    by (metis map_of_eq_None_iff option.distinct(1) set_map)
  moreover have "map fst (map (\<lambda>(k', v). if k' = k then (k', n + 1) else (k', v)) obj) = map fst obj"
    by (induction obj) auto
  ultimately show ?thesis
    using Some by (simp add: bump_def set_add_def)
qed

lemma map_fst_foldl_bump: "map fst (foldl bump obj ks) = foldl set_add (map fst obj) ks"
  by (induction ks arbitrary: obj) (simp_all add: map_fst_bump)

lemma map_of_bump:
  "map_of (bump obj k) k' =
     (if k' = k then Some (case map_of obj k of None \<Rightarrow> 1 | Some n \<Rightarrow> n + 1) else map_of obj k')"
proof (cases "map_of obj k")
  case None
  then show ?thesis
    by (auto simp: bump_def map_add_def split: option.splits)
next
  case (Some n)
  have "map_of (map (\<lambda>(k', v). if k' = k then (k', n + 1) else (k', v)) obj) k' =
      (if k' = k then map_option (\<lambda>v. n + 1) (map_of obj k') else map_of obj k')"
    by (induction obj) auto
  with Some show ?thesis
    by (simp add: bump_def)
qed

lemma map_of_foldl_bump:
  "map_of (foldl bump obj ks) k =
     (case map_of obj k of
        None \<Rightarrow> if k \<in> set ks then Some (count_list ks k) else None
      | Some n \<Rightarrow> Some (n + count_list ks k))"
proof (induction ks arbitrary: obj)
  case Nil
  show ?case by (simp split: option.splits)
next
  case (Cons a ks)
  show ?case
    by (simp add: Cons.IH map_of_bump split: option.splits)
qed

lemma alist_by_keys:
  "distinct (map fst obj) \<Longrightarrow> obj = map (\<lambda>k. (k, the (map_of obj k))) (map fst obj)"
proof (induction obj)
  case Nil
  show ?case by simp
next
  case (Cons p obj)
  have "map (\<lambda>k. (k, the (map_of (p # obj) k))) (map fst obj) =
      map (\<lambda>k. (k, the (map_of obj k))) (map fst obj)"
  proof (rule map_cong [OF refl])
    fix k
    assume "k \<in> set (map fst obj)"
    with Cons.prems have "k \<noteq> fst p"
      by (auto simp: image_iff)
    then show "(k, the (map_of (p # obj) k)) = (k, the (map_of obj k))"
      by (cases p) simp
  qed
  with Cons show ?case
    by (cases p) simp
qed

lemma skillFrequency_flat: "skillFrequency results = foldl bump [] (all_skills results)"
proof -
  have jobs_fold: "foldl (\<lambda>obj job. foldl bump obj (JobData.skills job)) obj js =
      foldl bump obj (concat (map JobData.skills js))" for obj js
    by (induction js arbitrary: obj) simp_all
  have "foldl (\<lambda>obj result. foldl (\<lambda>obj job. foldl bump obj (JobData.skills job)) obj (jobs result))
      obj results = foldl bump obj (all_skills results)" for obj
    by (induction results arbitrary: obj) (simp_all add: all_skills_def jobs_fold)
  then show ?thesis
    by (simp add: skillFrequency_def)
qed

lemma skillFrequency_counts:
  "skillFrequency results =
     map (\<lambda>k. (k, count_list (all_skills results) k)) (unique (all_skills results))"
proof -
  let ?ks = "all_skills results"
  let ?obj = "foldl bump [] ?ks"
  have keys: "map fst ?obj = unique ?ks"
    by (simp add: map_fst_foldl_bump unique_def)
  then have "distinct (map fst ?obj)"
    by (simp add: distinct_unique)
  then have "?obj = map (\<lambda>k. (k, the (map_of ?obj k))) (unique ?ks)"
    using alist_by_keys [of ?obj] keys by simp
  also have "\<dots> = map (\<lambda>k. (k, count_list ?ks k)) (unique ?ks)"
    by (rule map_cong) (simp_all add: map_of_foldl_bump set_unique)
  finally show ?thesis
    by (simp add: skillFrequency_flat)
qed


lemma insort_key_map_pair:
  "insort_key (\<lambda>(k, v). h k) (x, f x) (map (\<lambda>k. (k, f k)) ys) =
     map (\<lambda>k. (k, f k)) (insort_key h x ys)"
  by (induction ys) simp_all

lemma sort_key_map_pair:
  "sort_key (\<lambda>(k, v). h k) (map (\<lambda>k. (k, f k)) xs) = map (\<lambda>k. (k, f k)) (sort_key h xs)"
  by (induction xs) (simp_all add: insort_key_map_pair)

lemma filter_map_pair:
  "filter (\<lambda>(k, v). P k) (map (\<lambda>k. (k, f k)) xs) = map (\<lambda>k. (k, f k)) (filter P xs)"
  by (induction xs) simp_all

lemma object_entries_histogram: "object_entries (skillFrequency results) = histogram results"
  by (simp add: object_entries_def skillFrequency_counts histogram_def key_order_def
      filter_map_pair sort_key_map_pair)

lemma foldl_total:
  "foldl (\<lambda>sum result. sum + length (jobs result)) n results =
     n + length (concat (map jobs results))"
  by (induction results arbitrary: n) simp_all

lemma descending:
  "sorted (map (\<lambda>(k, v). - int v) xs) \<Longrightarrow> sorted (rev (map snd xs))"
  for xs :: "(string \<times> nat) list"
  by (induction xs) (auto simp: sorted_append)

lemma stable_counts:
  "filter (\<lambda>(k, v). v = n) (sort_key (\<lambda>(k, v). - int v) xs) = filter (\<lambda>(k, v). v = n) xs"
  for xs :: "(string \<times> nat) list"
proof -
  have eq: "(\<lambda>(k, v). v = n) = (\<lambda>y :: string \<times> nat. (case y of (k, v) \<Rightarrow> - int v) = - int n)"
    by (auto simp: fun_eq_iff)
  show ?thesis
    unfolding eq by (rule sort_key_stable)
qed

text \<open>
  C9, as stated, fails in its tie-break: the skills \<open>b\<close> and \<open>1\<close> occur once each, \<open>b\<close>
  first, and \<open>1\<close> comes first in \<open>topSkills\<close>, because \<^verbatim>\<open>Object.entries\<close> lists the property
  named by an array index before the others.
\<close>

theorem tie_break_counterexample:
  "all_skills [result_with [''b'', ''1'']] = [''b'', ''1''] \<and>
   topSkills (getStatistics 3 [result_with [''b'', ''1'']]) =
     [\<lparr>skill = ''1'', count = 1\<rparr>, \<lparr>skill = ''b'', count = 1\<rparr>]"
proof -
  have "all_skills [result_with [''b'', ''1'']] = [''b'', ''1'']"
    by (simp add: all_skills_def result_with_def)
  moreover have "topSkills (getStatistics 3 [result_with [''b'', ''1'']]) =
      [\<lparr>skill = ''1'', count = 1\<rparr>, \<lparr>skill = ''b'', count = 1\<rparr>]"
    by code_simp
  ultimately show ?thesis
    by simp
qed

text \<open>
  C9, amended. For results none of whose skills names a property inherited from
  \<^verbatim>\<open>Object.prototype\<close>, \<open>getStatistics\<close> returns the number of listings of all results, the
  number of results with \<open>success = true\<close>, the listing and error counts of each result, and
  in \<open>topSkills\<close> the first ten entries of the skill histogram sorted by descending count.
  The histogram holds every skill once with its number of occurrences. Skills with equal
  counts stay in the key order of the frequency object: the skills that are array indices
  first, by ascending value, then the other skills in the order in which they were first
  met. The function reads its argument with \<^verbatim>\<open>reduce\<close>, \<^verbatim>\<open>filter\<close>, \<^verbatim>\<open>map\<close> and \<^verbatim>\<open>forEach\<close> and
  sorts an array of its own making, so the results are not modified; in the model it is a
  function of them.
\<close>

theorem getStatistics_aggregation:
  "plain_skills results \<longrightarrow>
     totalJobs (getStatistics now results) = length (concat (map jobs results)) \<and>
     successfulPlatforms (getStatistics now results) = length (filter success results) \<and>
     platformStats (getStatistics now results) =
       map (\<lambda>result. \<lparr>stat_platform = platform result, stat_jobs = length (jobs result),
                        stat_success = success result,
                        stat_errors = (case errors result of None \<Rightarrow> 0 | Some es \<Rightarrow> length es)\<rparr>)
         results \<and>
     topSkills (getStatistics now results) =
       map (\<lambda>(k, v). \<lparr>skill = k, count = v\<rparr>)
         (take 10 (sort_key (\<lambda>(k, v). - int v) (histogram results))) \<and>
     sorted (rev (map snd (sort_key (\<lambda>(k, v). - int v) (histogram results)))) \<and>
     filter (\<lambda>(k, v). v = n) (sort_key (\<lambda>(k, v). - int v) (histogram results)) =
       filter (\<lambda>(k, v). v = n) (histogram results)"
proof (intro impI conjI)
  show "totalJobs (getStatistics now results) = length (concat (map jobs results))"
    by (simp add: getStatistics_def Let_def foldl_total)
  show "successfulPlatforms (getStatistics now results) = length (filter success results)"
    by (simp add: getStatistics_def Let_def)
  show "platformStats (getStatistics now results) =
       map (\<lambda>result. \<lparr>stat_platform = platform result, stat_jobs = length (jobs result),
                        stat_success = success result,
                        stat_errors = (case errors result of None \<Rightarrow> 0 | Some es \<Rightarrow> length es)\<rparr>)
         results"
    by (simp add: getStatistics_def Let_def)
  show "topSkills (getStatistics now results) =
       map (\<lambda>(k, v). \<lparr>skill = k, count = v\<rparr>)
         (take 10 (sort_key (\<lambda>(k, v). - int v) (histogram results)))"
    by (simp add: getStatistics_def Let_def object_entries_histogram)
  have "sorted (map (\<lambda>(k, v). - int v) (sort_key (\<lambda>(k, v). - int v) (histogram results)))"
    by (rule sorted_sort_key)
  then show "sorted (rev (map snd (sort_key (\<lambda>(k, v). - int v) (histogram results))))"
    by (rule descending)
  show "filter (\<lambda>(k, v). v = n) (sort_key (\<lambda>(k, v). - int v) (histogram results)) =
      filter (\<lambda>(k, v). v = n) (histogram results)"
    by (rule stable_counts)
qed

theorem getStatistics_aggregation_witness:
  "plain_skills [result_with [''React'', ''Go''], result_with [''Go'', ''10'', ''9'']] \<and>
   histogram [result_with [''React'', ''Go''], result_with [''Go'', ''10'', ''9'']] =
     [(''9'', 1), (''10'', 1), (''React'', 1), (''Go'', 2)] \<and>
   topSkills (getStatistics 3 [result_with [''React'', ''Go''], result_with [''Go'', ''10'', ''9'']]) =
     [\<lparr>skill = ''Go'', count = 2\<rparr>, \<lparr>skill = ''9'', count = 1\<rparr>,
      \<lparr>skill = ''10'', count = 1\<rparr>, \<lparr>skill = ''React'', count = 1\<rparr>] \<and>
   totalJobs (getStatistics 3 [result_with [''React'', ''Go''], result_with [''Go'', ''10'', ''9'']]) = 2"
proof -
  have plain: "plain_skills [result_with [''React'', ''Go''], result_with [''Go'', ''10'', ''9'']]"
    by code_simp
  have hist: "histogram [result_with [''React'', ''Go''], result_with [''Go'', ''10'', ''9'']] =
      [(''9'', 1), (''10'', 1), (''React'', 1), (''Go'', 2)]"
    by code_simp
  have total: "length (concat (map jobs
      [result_with [''React'', ''Go''], result_with [''Go'', ''10'', ''9'']])) = 2"
    by (simp add: result_with_def)
  show ?thesis
    using plain hist total
      getStatistics_aggregation
        [of "[result_with [''React'', ''Go''], result_with [''Go'', ''10'', ''9'']]" 3]
    by simp
qed

end
